theory Spec2Isabelle
  imports Complex_Main "HOL-Library.Log_Nat" "HOL-Library.AList"
begin

section \<open>JavaScript numbers\<close>

text \<open>
  A JavaScript number is an IEEE-754 binary64 value.  \<open>Fin q\<close> is the finite double whose
  exact value is the rational \<open>q\<close>; the two zeros are identified (they are equal under
  \<open>===\<close>, both falsy, and serialise alike in JSON), and a division by zero takes the
  divisor as \<open>+0\<close>.  Every arithmetic operation computes the exact rational result and
  rounds it with \<open>fl\<close>.
\<close>

datatype jsnum = Fin rat | PInf | NInf | NaN

text \<open>\<open>binexp q\<close> is the binary exponent of \<open>q \<noteq> 0\<close>: \<open>2^e \<le> |q| < 2^(e+1)\<close>.\<close>

definition binexp :: "rat \<Rightarrow> int" where
  "binexp q = (let a = fst (quotient_of \<bar>q\<bar>); b = snd (quotient_of \<bar>q\<bar>);
                   d = bitlen a - bitlen b
               in if 2 powi d \<le> \<bar>q\<bar> then d else d - 1)"

definition roundHalfEven :: "rat \<Rightarrow> int" where
  "roundHalfEven k = (let f = \<lfloor>k\<rfloor>; r = k - of_int f
     in if r < 1/2 then f else if 1/2 < r then f + 1 else if even f then f else f + 1)"

text \<open>
  Rounding to the nearest double, ties to the even significand: 53 significant bits,
  subnormals below \<open>2^-1022\<close>, overflow to an infinity from \<open>2^1024\<close>.
\<close>

definition fl :: "rat \<Rightarrow> jsnum" where
  "fl q = (if q = 0 then Fin 0 else
     let u = 2 powi (max (binexp q) (- 1022) - 52);
         r = of_int (roundHalfEven (q / u)) * u
     in if 2 powi 1024 \<le> r then PInf else if r \<le> - (2 powi 1024) then NInf else Fin r)"

fun jneg :: "jsnum \<Rightarrow> jsnum" where
  "jneg (Fin a) = Fin (- a)"
| "jneg PInf = NInf"
| "jneg NInf = PInf"
| "jneg NaN = NaN"

fun jadd :: "jsnum \<Rightarrow> jsnum \<Rightarrow> jsnum" where
  "jadd (Fin a) (Fin b) = fl (a + b)"
| "jadd NaN y = NaN"
| "jadd x NaN = NaN"
| "jadd PInf NInf = NaN"
| "jadd NInf PInf = NaN"
| "jadd PInf y = PInf"
| "jadd x PInf = PInf"
| "jadd NInf y = NInf"
| "jadd x NInf = NInf"

definition jsub :: "jsnum \<Rightarrow> jsnum \<Rightarrow> jsnum" where
  "jsub x y = jadd x (jneg y)"

fun isNegative :: "jsnum \<Rightarrow> bool" where
  "isNegative (Fin a) = (a < 0)"
| "isNegative NInf = True"
| "isNegative PInf = False"
| "isNegative NaN = False"

fun jmul :: "jsnum \<Rightarrow> jsnum \<Rightarrow> jsnum" where
  "jmul (Fin a) (Fin b) = fl (a * b)"
| "jmul NaN y = NaN"
| "jmul x NaN = NaN"
| "jmul x y = (if x = Fin 0 \<or> y = Fin 0 then NaN
               else if isNegative x = isNegative y then PInf else NInf)"

fun jdiv :: "jsnum \<Rightarrow> jsnum \<Rightarrow> jsnum" where
  "jdiv NaN y = NaN"
| "jdiv x NaN = NaN"
| "jdiv (Fin a) (Fin b) =
     (if b = 0 then (if a = 0 then NaN else if a < 0 then NInf else PInf) else fl (a / b))"
| "jdiv (Fin a) y = Fin 0"
| "jdiv x (Fin b) = (if isNegative x = (b < 0) then PInf else NInf)"
| "jdiv x y = NaN"

subsection \<open>Values that may be missing\<close>

text \<open>
  A request field, a function argument or a column of a row holds a value of its
  documented type, or \<open>undefined\<close> (absent), or \<open>null\<close> (SQL NULL).
\<close>

datatype 'a jsopt = Undefined | Null | Val 'a

datatype jserror = TypeError | ReferenceError | DbError

text \<open>ToNumber, as the arithmetic operators apply it to their operands.\<close>

fun toNumber :: "jsnum jsopt \<Rightarrow> jsnum" where
  "toNumber Undefined = NaN"
| "toNumber Null = Fin 0"
| "toNumber (Val x) = x"

text \<open>Truthiness, as \<open>!x\<close>, \<open>x || y\<close> and \<open>if (x)\<close> test it.\<close>

fun truthyNumber :: "jsnum \<Rightarrow> bool" where
  "truthyNumber (Fin q) = (q \<noteq> 0)"
| "truthyNumber NaN = False"
| "truthyNumber PInf = True"
| "truthyNumber NInf = True"

fun truthyNum :: "jsnum jsopt \<Rightarrow> bool" where
  "truthyNum (Val x) = truthyNumber x"
| "truthyNum Undefined = False"
| "truthyNum Null = False"

fun truthyStr :: "string jsopt \<Rightarrow> bool" where
  "truthyStr (Val s) = (s \<noteq> [])"
| "truthyStr Undefined = False"
| "truthyStr Null = False"

subsection \<open>toFixed(2)\<close>

text \<open>
  \<open>x.toFixed(2)\<close> on a finite \<open>x\<close> below \<open>10^21\<close> in magnitude prints the integer \<open>n\<close> of
  hundredths for which \<open>n / 100 - |x|\<close> is closest to zero, the larger \<open>n\<close> on a tie, with
  the sign of \<open>x\<close> in front; from \<open>10^21\<close> on it prints \<open>x\<close> as \<open>String(x)\<close> does, and NaN and
  the infinities print as their names.  \<open>Number\<close> reads the string back as the nearest
  double.  \<open>numberToFixed2 x\<close> is \<open>Number(x.toFixed(2))\<close> for a number \<open>x\<close>.
\<close>

definition roundHalfUp :: "rat \<Rightarrow> int" where
  "roundHalfUp k = \<lfloor>k + 1/2\<rfloor>"

definition toFixed2Digits :: "rat \<Rightarrow> int" where
  "toFixed2Digits q = (if q < 0 then - roundHalfUp (- q * 100) else roundHalfUp (q * 100))"

fun numberToFixed2 :: "jsnum \<Rightarrow> jsnum" where
  "numberToFixed2 (Fin q) =
     (if 10 ^ 21 \<le> \<bar>q\<bar> then Fin q else fl (of_int (toFixed2Digits q) / 100))"
| "numberToFixed2 PInf = PInf"
| "numberToFixed2 NInf = NInf"
| "numberToFixed2 NaN = NaN"

text \<open>
  \<open>Number(v.toFixed(2))\<close> for a value that may be missing: reading \<open>toFixed\<close> of
  \<open>undefined\<close> or \<open>null\<close> throws a TypeError.
\<close>

fun toFixed2 :: "jsnum jsopt \<Rightarrow> jserror + jsnum" where
  "toFixed2 (Val x) = Inr (numberToFixed2 x)"
| "toFixed2 Undefined = Inl TypeError"
| "toFixed2 Null = Inl TypeError"

text \<open>\<open>-Number(v.toFixed(2))\<close>.\<close>

fun negToFixed2 :: "jsnum jsopt \<Rightarrow> jserror + jsnum" where
  "negToFixed2 (Val x) = Inr (jneg (numberToFixed2 x))"
| "negToFixed2 Undefined = Inl TypeError"
| "negToFixed2 Null = Inl TypeError"

section \<open>The settlement calculator (utils/betCalculations.js)\<close>

definition calculateLiability ::
  "string jsopt \<Rightarrow> string jsopt \<Rightarrow> jsnum jsopt \<Rightarrow> jsnum jsopt \<Rightarrow> jserror + jsnum" where
  "calculateLiability status betType stake odds =
     (if status \<noteq> Val ''pending'' then Inr (Fin 0)
      else if betType = Val ''layBet'' then
        Inr (numberToFixed2 (jmul (toNumber stake) (jsub (toNumber odds) (Fin 1))))
      else if betType = Val ''freeBet'' then Inr (Fin 0)
      else toFixed2 stake)"

definition calculateCommission :: "jsnum jsopt \<Rightarrow> jsnum jsopt \<Rightarrow> jsnum" where
  "calculateCommission profit commission =
     numberToFixed2 (jmul (toNumber profit) (jdiv (toNumber commission) (Fin 100)))"

text \<open>
  The parameter default \<open>commission = 0\<close> applies when the argument is \<open>undefined\<close>.
  The four arms of the switch are kept as the source has them.
\<close>

definition calculateResult ::
  "string jsopt \<Rightarrow> string jsopt \<Rightarrow> jsnum jsopt \<Rightarrow> jsnum jsopt \<Rightarrow> jsnum jsopt \<Rightarrow> jsnum jsopt
     \<Rightarrow> jserror + jsnum" where
  "calculateResult status betType stake odds liability commissionArg =
     (let commission = (if commissionArg = Undefined then Val (Fin 0) else commissionArg) in
      if status = Val ''pending'' then Inr (Fin 0)
      else if betType = Val ''backBet'' then
        (if status = Val ''won'' then
           (let profit = jmul (toNumber stake) (jsub (toNumber odds) (Fin 1));
                commissionAmount = calculateCommission (Val profit) commission
            in Inr (numberToFixed2 (jsub profit commissionAmount)))
         else negToFixed2 stake)
      else if betType = Val ''layBet'' then
        (if status = Val ''won'' then
           (let profit = stake;
                commissionAmount = calculateCommission profit commission
            in Inr (numberToFixed2 (jsub (toNumber profit) commissionAmount)))
         else negToFixed2 liability)
      else if betType = Val ''freeBet'' then
        (if status = Val ''won'' then
           (let profit = jmul (toNumber stake) (jsub (toNumber odds) (Fin 1));
                commissionAmount = calculateCommission (Val profit) commission
            in Inr (numberToFixed2 (jsub profit commissionAmount)))
         else Inr (Fin 0))
      else
        (if status = Val ''won'' then
           (let profit = jmul (toNumber stake) (jsub (toNumber odds) (Fin 1));
                commissionAmount = calculateCommission (Val profit) commission
            in Inr (numberToFixed2 (jsub profit commissionAmount)))
         else negToFixed2 stake))"

subsection \<open>The commission as the specification words it\<close>

text \<open>
  The specification's contract for the commission: \<open>profit * commissionPercent / 100\<close>,
  rounded half-up to 2 decimals.  It is written here over exact rationals and read as the
  nearest double, to be compared with \<open>calculateCommission\<close>.
\<close>

definition halfUp2 :: "rat \<Rightarrow> rat" where
  "halfUp2 q = of_int \<lfloor>q * 100 + 1/2\<rfloor> / 100"

definition commissionSpec :: "rat \<Rightarrow> rat \<Rightarrow> jsnum" where
  "commissionSpec profit commissionPercent = fl (halfUp2 (profit * commissionPercent / 100))"

text \<open>The six bet types of the data model.\<close>

definition knownBetTypes :: "string list" where
  "knownBetTypes = [''backBet'', ''layBet'', ''mugBet'', ''freeBet'', ''personal'', ''other'']"

section \<open>The persistence layer (database/query.sql, utils/helpers.js)\<close>

text \<open>
  The tables of the schema, with the columns the handlers below read or write.  A NUMERIC
  column holds an exact decimal, modelled as a rational, and a SUM is computed exactly by
  the database before it is handed over.  The bets controller and the statistics are
  modelled on the number such a value stands for, its nearest double; the balance
  handlers are modelled on the values as the pool delivers them.  A failing query makes dbGet, dbAll
  and dbRun throw; \<open>connected\<close> says whether the server can be reached.
\<close>

record bookMaker =
  bm_id :: int
  bm_name :: string
  bm_type :: string
  bm_comission :: rat
  bm_initialBalance :: rat
  bm_info :: "string jsopt"

record bet =
  bet_id :: int
  bet_betDate :: string
  bet_idBookMaker :: int
  bet_bank :: string
  bet_betType :: string
  bet_eventDate :: string
  bet_event :: string
  bet_bet :: string
  bet_stake :: rat
  bet_odds :: rat
  bet_status :: string
  bet_liability :: rat
  bet_result :: rat
  bet_info :: "string jsopt"

record transaction =
  tr_id :: int
  tr_date :: string
  tr_idBookMaker :: int
  tr_type :: string
  tr_amount :: rat

record freebet =
  fb_id :: int
  fb_idBookMaker :: int
  fb_amount :: "rat option"
  fb_status :: string

record db =
  connected :: bool
  bookMakers :: "bookMaker list"
  bets :: "bet list"
  transactions :: "transaction list"
  freebets :: "freebet list"

text \<open>What a handler sends: a success status with its JSON data, the empty 204, an early
  rejection (400, 404) or the 500 of its catch block, with the error caught.\<close>

datatype 'a response = Success nat 'a | NoContent | Rejected nat | ServerError jserror

text \<open>\<open>SELECT * FROM bookMakers WHERE id = ?\<close> and \<open>SELECT * FROM bets WHERE id = ?\<close>
  through dbGet: the first row, or \<open>undefined\<close> (here \<open>None\<close>).\<close>

definition selectBookMakerById :: "db \<Rightarrow> jsnum \<Rightarrow> jserror + bookMaker option" where
  "selectBookMakerById d n =
     (if connected d then Inr (find (\<lambda>bm. Fin (of_int (bm_id bm)) = n) (bookMakers d))
      else Inl DbError)"

definition selectBetById :: "db \<Rightarrow> jsnum \<Rightarrow> jserror + bet option" where
  "selectBetById d n =
     (if connected d then Inr (find (\<lambda>b. Fin (of_int (bet_id b)) = n) (bets d))
      else Inl DbError)"

text \<open>
  A property of the row object that \<open>SELECT * FROM bookMakers\<close> returns, read as an
  argument of the calculator.  The object has one property per column, named as the
  column is: id, name, type, comission, initialBalance, info; the value of a NUMERIC
  column is given as the number that the arithmetic of the calculator reads from it.
  Reading any other name gives \<open>undefined\<close>.
\<close>

definition numberColumn :: "bookMaker \<Rightarrow> string \<Rightarrow> jsnum jsopt" where
  "numberColumn bm col =
     (if col = ''id'' then Val (Fin (of_int (bm_id bm)))
      else if col = ''comission'' then Val (fl (bm_comission bm))
      else if col = ''initialBalance'' then Val (fl (bm_initialBalance bm))
      else Undefined)"

text \<open>
  Reading an identifier that is bound to a bookMakers row: the bindings in scope are
  listed with their values, and an identifier that is not in scope throws a
  ReferenceError.
\<close>

definition readVar :: "(string \<times> bookMaker) list \<Rightarrow> string \<Rightarrow> jserror + bookMaker" where
  "readVar scope name = (case map_of scope name of None \<Rightarrow> Inl ReferenceError | Some v \<Rightarrow> Inr v)"

text \<open>A number bound to a NUMERIC or INTEGER parameter: only a finite one can be stored.\<close>

fun toDecimal :: "jsnum \<Rightarrow> jserror + rat" where
  "toDecimal (Fin q) = Inr q"
| "toDecimal PInf = Inl DbError"
| "toDecimal NInf = Inl DbError"
| "toDecimal NaN = Inl DbError"

text \<open>A string parameter for a NOT NULL column, and for a nullable one.\<close>

fun toText :: "string jsopt \<Rightarrow> jserror + string" where
  "toText (Val s) = Inr s"
| "toText Undefined = Inl DbError"
| "toText Null = Inl DbError"

definition includesStr :: "string list \<Rightarrow> string jsopt \<Rightarrow> bool" where
  "includesStr xs v = (case v of Val s \<Rightarrow> s \<in> set xs | Undefined \<Rightarrow> False | Null \<Rightarrow> False)"

definition isInteger :: "jsnum \<Rightarrow> bool" where
  "isInteger x = (case x of Fin q \<Rightarrow> of_int \<lfloor>q\<rfloor> = q | PInf \<Rightarrow> False | NInf \<Rightarrow> False | NaN \<Rightarrow> False)"

section \<open>The bets controller: createBet and updateBet\<close>

record betBody =
  b_idBookMaker :: "jsnum jsopt"
  b_bank :: "string jsopt"
  b_betType :: "string jsopt"
  b_betDate :: "string jsopt"
  b_eventDate :: "string jsopt"
  b_event :: "string jsopt"
  b_bet :: "string jsopt"
  b_stake :: "jsnum jsopt"
  b_odds :: "jsnum jsopt"
  b_status :: "string jsopt"
  b_info :: "string jsopt"

text \<open>The data of the 201 response: the new id, the request fields, and the two computed
  fields.\<close>

record createdBet =
  cb_id :: int
  cb_body :: betBody
  cb_liability :: jsnum
  cb_result :: jsnum

text \<open>The INSERT of createBet: the next AUTO_INCREMENT id and the thirteen parameters.\<close>

definition nextBetId :: "db \<Rightarrow> int" where
  "nextBetId d = fold max (map bet_id (bets d)) 0 + 1"

definition insertBet :: "db \<Rightarrow> betBody \<Rightarrow> jsnum \<Rightarrow> jsnum \<Rightarrow> jserror + db \<times> int" where
  "insertBet d body liability result =
     (if \<not> connected d then Inl DbError
      else case (toDecimal (toNumber (b_idBookMaker body)), toText (b_bank body),
                 toText (b_betType body), toText (b_betDate body), toText (b_eventDate body),
                 toText (b_event body), toText (b_bet body), toDecimal (toNumber (b_stake body)),
                 toDecimal (toNumber (b_odds body)), toText (b_status body),
                 toDecimal liability, toDecimal result) of
        (Inr idBookMaker, Inr bank, Inr betType, Inr betDate, Inr eventDate, Inr event, Inr bet',
         Inr stake, Inr odds, Inr status, Inr l, Inr r) \<Rightarrow>
          Inr (d\<lparr>bets := bets d @
                 [\<lparr>bet_id = nextBetId d, bet_betDate = betDate,
                   bet_idBookMaker = \<lfloor>idBookMaker\<rfloor>, bet_bank = bank, bet_betType = betType,
                   bet_eventDate = eventDate, bet_event = event, bet_bet = bet',
                   bet_stake = stake, bet_odds = odds, bet_status = status,
                   bet_liability = l, bet_result = r, bet_info = b_info body\<rparr>]\<rparr>,
               nextBetId d)
      | _ \<Rightarrow> Inl DbError)"

text \<open>
  createBet.  After the validations the handler looks the bookmaker up, computes the
  liability and the result, passing \<open>bookMaker.commission\<close> as the commission, and
  inserts the row.
\<close>

definition createBet :: "db \<Rightarrow> betBody \<Rightarrow> db \<times> createdBet response" where
  "createBet d body =
     (if \<not> truthyNum (b_idBookMaker body) \<or> \<not> truthyStr (b_bank body)
         \<or> \<not> truthyStr (b_betType body) \<or> \<not> truthyStr (b_betDate body)
         \<or> \<not> truthyStr (b_eventDate body) \<or> \<not> truthyStr (b_event body)
         \<or> \<not> truthyStr (b_bet body) \<or> \<not> truthyNum (b_stake body)
         \<or> \<not> truthyNum (b_odds body) \<or> \<not> truthyStr (b_status body)
      then (d, Rejected 400)
      else if \<not> includesStr [''real'', ''freebet''] (b_bank body) then (d, Rejected 400)
      else if \<not> includesStr knownBetTypes (b_betType body) then (d, Rejected 400)
      else if \<not> includesStr [''pending'', ''won'', ''lost''] (b_status body)
      then (d, Rejected 400)
      else case selectBookMakerById d (toNumber (b_idBookMaker body)) of
        Inl e \<Rightarrow> (d, ServerError e)
      | Inr None \<Rightarrow> (d, Rejected 404)
      | Inr (Some bookMaker) \<Rightarrow>
         (case calculateLiability (b_status body) (b_betType body) (b_stake body) (b_odds body) of
            Inl e \<Rightarrow> (d, ServerError e)
          | Inr liability \<Rightarrow>
             (case readVar [(''bookMaker'', bookMaker)] ''bookMaker'' of
                Inl e \<Rightarrow> (d, ServerError e)
              | Inr bm \<Rightarrow>
                 (case calculateResult (b_status body) (b_betType body) (b_stake body)
                         (b_odds body) (Val liability) (numberColumn bm ''commission'') of
                    Inl e \<Rightarrow> (d, ServerError e)
                  | Inr result \<Rightarrow>
                     (case insertBet d body liability result of
                        Inl e \<Rightarrow> (d, ServerError e)
                      | Inr (d', insertId) \<Rightarrow>
                          (d', Success 201 \<lparr>cb_id = insertId, cb_body = body,
                                 cb_liability = liability, cb_result = result\<rparr>))))))"

text \<open>
  updateBet.  The \<open>const bookMaker\<close> of lines 285-288 is declared inside the block of
  \<open>if ( idBookMaker )\<close> and ends with that block; the function body and the module bind
  no other identifier of that name, so at the call of calculateResult (line 329) no
  bookMakers row is in scope.
\<close>

definition updateBetScope :: "(string \<times> bookMaker) list" where
  "updateBetScope = []"

text \<open>\<open>COALESCE(?, column)\<close>: the parameter unless it is NULL (\<open>undefined\<close> is sent as
  NULL).\<close>

fun coalesce :: "'a jsopt \<Rightarrow> 'a \<Rightarrow> 'a" where
  "coalesce (Val v) c = v"
| "coalesce Undefined c = c"
| "coalesce Null c = c"

fun coalesceDecimal :: "jsnum jsopt \<Rightarrow> rat \<Rightarrow> jserror + rat" where
  "coalesceDecimal (Val x) c = toDecimal x"
| "coalesceDecimal Undefined c = Inr c"
| "coalesceDecimal Null c = Inr c"

definition updateBetRow :: "betBody \<Rightarrow> rat \<Rightarrow> rat \<Rightarrow> bet \<Rightarrow> jserror + bet" where
  "updateBetRow body l r b =
     (case (coalesceDecimal (b_idBookMaker body) (of_int (bet_idBookMaker b)),
            coalesceDecimal (b_stake body) (bet_stake b),
            coalesceDecimal (b_odds body) (bet_odds b)) of
        (Inr idBookMaker, Inr stake, Inr odds) \<Rightarrow>
          Inr (b\<lparr>bet_idBookMaker := \<lfloor>idBookMaker\<rfloor>,
                 bet_bank := coalesce (b_bank body) (bet_bank b),
                 bet_betType := coalesce (b_betType body) (bet_betType b),
                 bet_betDate := coalesce (b_betDate body) (bet_betDate b),
                 bet_eventDate := coalesce (b_eventDate body) (bet_eventDate b),
                 bet_event := coalesce (b_event body) (bet_event b),
                 bet_bet := coalesce (b_bet body) (bet_bet b),
                 bet_stake := stake, bet_odds := odds,
                 bet_status := coalesce (b_status body) (bet_status b),
                 bet_liability := l, bet_result := r,
                 bet_info := (case b_info body of Val i \<Rightarrow> Val i | Undefined \<Rightarrow> bet_info b
                              | Null \<Rightarrow> bet_info b)\<rparr>)
      | _ \<Rightarrow> Inl DbError)"

fun updateBetRows :: "betBody \<Rightarrow> rat \<Rightarrow> rat \<Rightarrow> jsnum \<Rightarrow> bet list \<Rightarrow> jserror + bet list" where
  "updateBetRows body l r n [] = Inr []"
| "updateBetRows body l r n (b # bs) =
     (case updateBetRows body l r n bs of
        Inl e \<Rightarrow> Inl e
      | Inr bs' \<Rightarrow>
          (if Fin (of_int (bet_id b)) = n
           then (case updateBetRow body l r b of Inl e \<Rightarrow> Inl e | Inr b' \<Rightarrow> Inr (b' # bs'))
           else Inr (b # bs')))"

definition updateBetStatement :: "db \<Rightarrow> betBody \<Rightarrow> jsnum \<Rightarrow> jsnum \<Rightarrow> jsnum \<Rightarrow> jserror + db" where
  "updateBetStatement d body liability result n =
     (if \<not> connected d then Inl DbError
      else case (toDecimal liability, toDecimal result) of
        (Inr l, Inr r) \<Rightarrow>
          (case updateBetRows body l r n (bets d) of
             Inl e \<Rightarrow> Inl e
           | Inr bs \<Rightarrow> Inr (d\<lparr>bets := bs\<rparr>))
      | _ \<Rightarrow> Inl DbError)"

text \<open>The lookup of lines 284-294: a rejection to send, or nothing.\<close>

definition checkBookMaker :: "db \<Rightarrow> jsnum jsopt \<Rightarrow> (bet option) response option" where
  "checkBookMaker d idBookMaker =
     (if truthyNum idBookMaker then
        (case selectBookMakerById d (toNumber idBookMaker) of
           Inl e \<Rightarrow> Some (ServerError e)
         | Inr None \<Rightarrow> Some (Rejected 404)
         | Inr (Some bookMaker) \<Rightarrow> None)
      else None)"

definition updateBet :: "db \<Rightarrow> jsnum \<Rightarrow> betBody \<Rightarrow> db \<times> (bet option) response" where
  "updateBet d idParam body =
     (if \<not> isInteger idParam then (d, Rejected 400)
      else case selectBetById d idParam of
        Inl e \<Rightarrow> (d, ServerError e)
      | Inr None \<Rightarrow> (d, Rejected 404)
      | Inr (Some existingBet) \<Rightarrow>
         (case checkBookMaker d (b_idBookMaker body) of
            Some rejection \<Rightarrow> (d, rejection)
          | None \<Rightarrow>
             if truthyStr (b_bank body) \<and> \<not> includesStr [''real'', ''freebet''] (b_bank body)
             then (d, Rejected 400)
             else if truthyStr (b_betType body) \<and> \<not> includesStr knownBetTypes (b_betType body)
             then (d, Rejected 400)
             else if truthyStr (b_status body)
                     \<and> \<not> includesStr [''pending'', ''won'', ''lost''] (b_status body)
             then (d, Rejected 400)
             else
               (let finalBetType = (if truthyStr (b_betType body) then b_betType body
                                    else Val (bet_betType existingBet));
                    finalStake = (if truthyNum (b_stake body) then b_stake body
                                  else Val (fl (bet_stake existingBet)));
                    finalOdds = (if truthyNum (b_odds body) then b_odds body
                                 else Val (fl (bet_odds existingBet)));
                    finalStatus = (if truthyStr (b_status body) then b_status body
                                   else Val (bet_status existingBet))
                in case calculateLiability (b_status body) (b_betType body) (b_stake body)
                          (b_odds body) of
                     Inl e \<Rightarrow> (d, ServerError e)
                   | Inr liability \<Rightarrow>
                      (case readVar updateBetScope ''bookMaker'' of
                         Inl e \<Rightarrow> (d, ServerError e)
                       | Inr bm \<Rightarrow>
                          (case calculateResult (b_status body) (b_betType body) (b_stake body)
                                  (b_odds body) (Val liability) (numberColumn bm ''commission'') of
                             Inl e \<Rightarrow> (d, ServerError e)
                           | Inr result \<Rightarrow>
                              (case updateBetStatement d body liability result idParam of
                                 Inl e \<Rightarrow> (d, ServerError e)
                               | Inr d' \<Rightarrow>
                                  (case selectBetById d' idParam of
                                     Inl e \<Rightarrow> (d', ServerError e)
                                   | Inr updatedBet \<Rightarrow> (d', Success 200 updatedBet))))))))"

text \<open>
  What the comment of line 321 announces: liability and result from the final data (the
  request's value when supplied, the stored one otherwise) and the commission of the
  bet's bookmaker.  The handler computes the four final values and does not use them.
\<close>

definition effectiveSettlement ::
  "betBody \<Rightarrow> bet \<Rightarrow> rat \<Rightarrow> (jserror + jsnum) \<times> (jserror + jsnum)" where
  "effectiveSettlement body existingBet commission =
     (let finalBetType = (if truthyStr (b_betType body) then b_betType body
                          else Val (bet_betType existingBet));
          finalStake = (if truthyNum (b_stake body) then b_stake body
                        else Val (fl (bet_stake existingBet)));
          finalOdds = (if truthyNum (b_odds body) then b_odds body
                       else Val (fl (bet_odds existingBet)));
          finalStatus = (if truthyStr (b_status body) then b_status body
                         else Val (bet_status existingBet));
          liability = calculateLiability finalStatus finalBetType finalStake finalOdds
      in (liability,
          case liability of
            Inl e \<Rightarrow> Inl e
          | Inr l \<Rightarrow> calculateResult finalStatus finalBetType finalStake finalOdds (Val l)
                      (Val (fl commission))))"

section \<open>Aggregates over the stored rows\<close>

text \<open>
  SQL aggregates.  SUM over no row (or over NULLs only) is NULL, otherwise the exact sum;
  COUNT is a number.  A query that groups by bookmaker returns one row for every
  bookmaker that has at least one row to aggregate; the rows are listed in the order of
  the bookMakers table (ORDER BY only permutes them).
\<close>

definition sumOrNull :: "rat list \<Rightarrow> jsnum jsopt" where
  "sumOrNull xs = (if xs = [] then Null else Val (fl (sum_list xs)))"

definition countWhere :: "('a \<Rightarrow> bool) \<Rightarrow> 'a list \<Rightarrow> jsnum" where
  "countWhere P xs = fl (of_nat (length (filter P xs)))"

text \<open>\<open>x || 0\<close> for a number.\<close>

definition numberOrZero :: "jsnum \<Rightarrow> jsnum" where
  "numberOrZero x = (if truthyNumber x then x else Fin 0)"

text \<open>
  \<open>Number(v?.toFixed(2) || 0)\<close>: on \<open>null\<close> or \<open>undefined\<close> the optional call gives
  \<open>undefined\<close> and the 0 is taken; on a number, toFixed gives a non-empty string, which
  is truthy whatever it spells ("0.00", "NaN", "Infinity"), and Number reads it back.
\<close>

fun fixedOrZero :: "jsnum jsopt \<Rightarrow> jsnum" where
  "fixedOrZero (Val x) = numberToFixed2 x"
| "fixedOrZero Undefined = Fin 0"
| "fixedOrZero Null = Fin 0"

subsection \<open>getBetStats\<close>

record betStat =
  bs_bookMakerName :: string
  bs_totalBets :: jsnum
  bs_wonBets :: jsnum
  bs_lostBets :: jsnum
  bs_pendingBets :: jsnum
  bs_totalStaked :: jsnum
  bs_totalResult :: jsnum

record enhancedBetStat = betStat +
  bs_winRate :: jsnum
  bs_avgStake :: jsnum
  bs_roi :: jsnum

definition betsOfBookMaker :: "db \<Rightarrow> bookMaker \<Rightarrow> bet list" where
  "betsOfBookMaker d bm = filter (\<lambda>b. bet_idBookMaker b = bm_id bm) (bets d)"

definition betStatRow :: "db \<Rightarrow> bookMaker \<Rightarrow> betStat" where
  "betStatRow d bm =
     (let bs = betsOfBookMaker d bm in
      \<lparr>bs_bookMakerName = bm_name bm,
       bs_totalBets = countWhere (\<lambda>b. True) bs,
       bs_wonBets = countWhere (\<lambda>b. bet_status b = ''won'') bs,
       bs_lostBets = countWhere (\<lambda>b. bet_status b = ''lost'') bs,
       bs_pendingBets = countWhere (\<lambda>b. bet_status b = ''pending'') bs,
       bs_totalStaked = fl (sum_list (map bet_stake bs)),
       bs_totalResult = fl (sum_list (map (\<lambda>b. if bet_status b = ''won'' then bet_result b
                                              else if bet_status b = ''lost'' then bet_result b
                                              else 0) bs))\<rparr>)"

definition betStatRows :: "db \<Rightarrow> betStat list" where
  "betStatRows d = map (betStatRow d) (filter (\<lambda>bm. betsOfBookMaker d bm \<noteq> []) (bookMakers d))"

text \<open>The callback of \<open>stats.map\<close> (lines 549-554).\<close>

definition enhanceStat :: "betStat \<Rightarrow> enhancedBetStat" where
  "enhanceStat stat = betStat.extend stat
     \<lparr>bs_winRate = numberToFixed2 (numberOrZero
         (jmul (jdiv (bs_wonBets stat) (jadd (bs_wonBets stat) (bs_lostBets stat))) (Fin 100))),
      bs_avgStake = numberToFixed2 (jdiv (bs_totalStaked stat) (bs_totalBets stat)),
      bs_roi = numberToFixed2 (numberOrZero
         (jmul (jdiv (bs_totalResult stat) (bs_totalStaked stat)) (Fin 100)))\<rparr>"

definition getBetStats :: "db \<Rightarrow> (enhancedBetStat list) response" where
  "getBetStats d =
     (if \<not> connected d then ServerError DbError
      else if betStatRows d = [] then NoContent
      else Success 200 (map enhanceStat (betStatRows d)))"

subsection \<open>getFreebetConversionRate\<close>

record freebetStat =
  fs_bookMakerName :: string
  fs_totalFreebets :: jsnum
  fs_totalFreebetAmount :: "jsnum jsopt"
  fs_avgFreebetAmount :: "jsnum jsopt"
  fs_receivedFreebets :: jsnum
  fs_rejectedFreebets :: jsnum
  fs_totalProfit :: "jsnum jsopt"

record enrichedFreebetStat =
  ef_bookMakerName :: string
  ef_totalFreebets :: jsnum
  ef_totalFreebetAmount :: jsnum
  ef_avgFreebetAmount :: jsnum
  ef_receivedFreebets :: jsnum
  ef_rejectedFreebets :: jsnum
  ef_totalProfit :: jsnum
  ef_conversionRate :: jsnum
  ef_successRate :: jsnum

record freebetTotals =
  ft_totalFreebets :: jsnum
  ft_totalAmount :: jsnum
  ft_totalProfit :: jsnum
  ft_receivedFreebets :: jsnum
  ft_rejectedFreebets :: jsnum

record conversionReport =
  cr_totals :: freebetTotals
  cr_overallConversionRate :: jsnum
  cr_overallSuccessRate :: jsnum
  cr_byBookMaker :: "enrichedFreebetStat list"

definition freebetsOfBookMaker :: "db \<Rightarrow> bookMaker \<Rightarrow> freebet list" where
  "freebetsOfBookMaker d bm = filter (\<lambda>f. fb_idBookMaker f = bm_id bm) (freebets d)"

definition amountsOf :: "freebet list \<Rightarrow> rat list" where
  "amountsOf fs = concat (map (\<lambda>f. case fb_amount f of None \<Rightarrow> [] | Some a \<Rightarrow> [a]) fs)"

text \<open>AVG over the amounts that are not NULL, taken exactly.\<close>

definition avgOrNull :: "rat list \<Rightarrow> jsnum jsopt" where
  "avgOrNull xs = (if xs = [] then Null else Val (fl (sum_list xs / of_nat (length xs))))"

definition freebetStatRow :: "db \<Rightarrow> bookMaker \<Rightarrow> freebetStat" where
  "freebetStatRow d bm =
     (let fs = freebetsOfBookMaker d bm in
      \<lparr>fs_bookMakerName = bm_name bm,
       fs_totalFreebets = countWhere (\<lambda>f. True) fs,
       fs_totalFreebetAmount = sumOrNull (amountsOf fs),
       fs_avgFreebetAmount = avgOrNull (amountsOf fs),
       fs_receivedFreebets = countWhere (\<lambda>f. fb_status f = ''received'') fs,
       fs_rejectedFreebets = countWhere (\<lambda>f. fb_status f = ''rejected'') fs,
       fs_totalProfit = sumOrNull (map bet_result
          (filter (\<lambda>b. bet_betType b = ''freeBet'' \<and> bet_idBookMaker b = bm_id bm
                        \<and> bet_status b \<noteq> ''pending'') (bets d)))\<rparr>)"

definition freebetStatRows :: "db \<Rightarrow> freebetStat list" where
  "freebetStatRows d =
     map (freebetStatRow d) (filter (\<lambda>bm. freebetsOfBookMaker d bm \<noteq> []) (bookMakers d))"

text \<open>The callback of \<open>stats.map\<close> (lines 666-673).\<close>

definition enrichStat :: "freebetStat \<Rightarrow> enrichedFreebetStat" where
  "enrichStat s =
     \<lparr>ef_bookMakerName = fs_bookMakerName s,
      ef_totalFreebets = fs_totalFreebets s,
      ef_totalFreebetAmount = fixedOrZero (fs_totalFreebetAmount s),
      ef_avgFreebetAmount = fixedOrZero (fs_avgFreebetAmount s),
      ef_receivedFreebets = fs_receivedFreebets s,
      ef_rejectedFreebets = fs_rejectedFreebets s,
      ef_totalProfit = fixedOrZero (fs_totalProfit s),
      ef_conversionRate = fixedOrZero (Val (jmul
          (jdiv (toNumber (fs_totalProfit s)) (toNumber (fs_totalFreebetAmount s))) (Fin 100))),
      ef_successRate = fixedOrZero (Val (jmul
          (jdiv (fs_receivedFreebets s) (fs_totalFreebets s)) (Fin 100)))\<rparr>"

text \<open>The callback of \<open>enrichedStats.reduce\<close> (lines 676-682) and its initial value.\<close>

definition addTotals :: "freebetTotals \<Rightarrow> enrichedFreebetStat \<Rightarrow> freebetTotals" where
  "addTotals acc cur =
     \<lparr>ft_totalFreebets = jadd (ft_totalFreebets acc) (ef_totalFreebets cur),
      ft_totalAmount = jadd (ft_totalAmount acc) (ef_totalFreebetAmount cur),
      ft_totalProfit = jadd (ft_totalProfit acc) (ef_totalProfit cur),
      ft_receivedFreebets = jadd (ft_receivedFreebets acc) (ef_receivedFreebets cur),
      ft_rejectedFreebets = jadd (ft_rejectedFreebets acc) (ef_rejectedFreebets cur)\<rparr>"

definition zeroTotals :: freebetTotals where
  "zeroTotals = \<lparr>ft_totalFreebets = Fin 0, ft_totalAmount = Fin 0, ft_totalProfit = Fin 0,
     ft_receivedFreebets = Fin 0, ft_rejectedFreebets = Fin 0\<rparr>"

definition getFreebetConversionRate :: "db \<Rightarrow> conversionReport response" where
  "getFreebetConversionRate d =
     (if \<not> connected d then ServerError DbError
      else if freebetStatRows d = [] then NoContent
      else
        (let enrichedStats = map enrichStat (freebetStatRows d);
             totals = foldl addTotals zeroTotals enrichedStats
         in Success 200
              \<lparr>cr_totals = totals,
               cr_overallConversionRate = numberToFixed2
                 (jmul (jdiv (ft_totalProfit totals) (ft_totalAmount totals)) (Fin 100)),
               cr_overallSuccessRate = numberToFixed2
                 (jmul (jdiv (ft_receivedFreebets totals) (ft_totalFreebets totals)) (Fin 100)),
               cr_byBookMaker = enrichedStats\<rparr>))"

subsection \<open>Rows as the pool delivers them\<close>

text \<open>
  src/database.js creates the pool with the options host, user, password, database,
  waitForConnections, connectionLimit and queueLimit, and without decimalNumbers.  Such a
  pool delivers an INTEGER column and a COUNT as a number, NULL as \<open>null\<close>, and a
  DECIMAL value as its decimal text: every NUMERIC column, and every SUM over NUMERIC
  columns and decimal constants.  The two balance handlers below add these values with
  \<open>+\<close> and call \<open>toFixed\<close> on them, and both tell a text from a number, so a cell of
  their rows is a number, a text or null.
\<close>

datatype jsval = NumV jsnum | TextV string | NullV

text \<open>
  Three functions on texts are those of the database and of the language:
  \<open>decimalText q\<close> is the text of the DECIMAL value \<open>q\<close> (with as many digits after the
  point as the scale the column was created with), \<open>numberText x\<close> is \<open>String(x)\<close> for a
  number \<open>x\<close>, and \<open>textNumber s\<close> is \<open>Number(s)\<close> for a text \<open>s\<close>.  The handlers take
  them as a parameter, and what is proved about the handlers holds for every choice of
  them.
\<close>

record jsTexts =
  decimalText :: "rat \<Rightarrow> string"
  numberText :: "jsnum \<Rightarrow> string"
  textNumber :: "string \<Rightarrow> jsnum"

text \<open>Truthiness of a cell and \<open>v || 0\<close>: the empty text, 0, NaN and null are falsy.\<close>

fun truthyVal :: "jsval \<Rightarrow> bool" where
  "truthyVal (NumV x) = truthyNumber x"
| "truthyVal (TextV s) = (s \<noteq> [])"
| "truthyVal NullV = False"

definition orZeroVal :: "jsval \<Rightarrow> jsval" where
  "orZeroVal v = (if truthyVal v then v else NumV (Fin 0))"

text \<open>ToNumber and ToString of a cell, as \<open>-\<close> and \<open>+\<close> apply them to an operand.\<close>

fun valNumber :: "jsTexts \<Rightarrow> jsval \<Rightarrow> jsnum" where
  "valNumber tx (NumV x) = x"
| "valNumber tx (TextV s) = textNumber tx s"
| "valNumber tx NullV = Fin 0"

fun valText :: "jsTexts \<Rightarrow> jsval \<Rightarrow> string" where
  "valText tx (NumV x) = numberText tx x"
| "valText tx (TextV s) = s"
| "valText tx NullV = ''null''"

fun isText :: "jsval \<Rightarrow> bool" where
  "isText (TextV s) = True"
| "isText (NumV x) = False"
| "isText NullV = False"

text \<open>
  \<open>a + b\<close> concatenates the texts of its operands when one of them is a text, and adds
  their numbers otherwise; \<open>a - b\<close> always subtracts their numbers.
\<close>

definition plusVal :: "jsTexts \<Rightarrow> jsval \<Rightarrow> jsval \<Rightarrow> jsval" where
  "plusVal tx a b =
     (if isText a \<or> isText b then TextV (valText tx a @ valText tx b)
      else NumV (jadd (valNumber tx a) (valNumber tx b)))"

definition minusVal :: "jsTexts \<Rightarrow> jsval \<Rightarrow> jsval \<Rightarrow> jsval" where
  "minusVal tx a b = NumV (jsub (valNumber tx a) (valNumber tx b))"

text \<open>
  \<open>Number(v.toFixed(2))\<close> for a cell.  Only a number has the method \<open>toFixed\<close>: on a text
  the property is \<open>undefined\<close> and calling it throws a TypeError, and so does reading it
  from \<open>null\<close>.
\<close>

fun valToFixed2 :: "jsval \<Rightarrow> jserror + jsnum" where
  "valToFixed2 (NumV x) = Inr (numberToFixed2 x)"
| "valToFixed2 (TextV s) = Inl TypeError"
| "valToFixed2 NullV = Inl TypeError"

text \<open>SUM over DECIMAL values: NULL over no row, otherwise the text of the exact sum.\<close>

definition sumDecimal :: "jsTexts \<Rightarrow> rat list \<Rightarrow> jsval" where
  "sumDecimal tx xs = (if xs = [] then NullV else TextV (decimalText tx (sum_list xs)))"

subsection \<open>Column names in a statement\<close>

text \<open>
  The columns of three tables, as the INSERT statements of the controllers name them
  after the key \<open>id\<close>: createBookMaker (bookMakers.controller.js, line 204),
  createTransaction (utils/helpers.js, line 350) and createBet (line 196).  The file
  database/query.sql creates the table transactions without the column \<open>amount\<close> that
  every statement on that table names; the columns are taken from the statements.
\<close>

definition bookMakersColumns :: "string list" where
  "bookMakersColumns = [''id'', ''name'', ''type'', ''comission'', ''info'', ''initialBalance'']"

definition transactionsColumns :: "string list" where
  "transactionsColumns = [''id'', ''idBookMaker'', ''type'', ''amount'', ''date'', ''info'']"

definition betsColumns :: "string list" where
  "betsColumns = [''id'', ''idBookMaker'', ''bank'', ''betType'', ''betDate'', ''eventDate'',
     ''event'', ''bet'', ''stake'', ''odds'', ''status'', ''liability'', ''result'', ''info'']"

text \<open>
  A statement may name a column without its table when exactly one table of its FROM
  clause has a column of that name.  When none has one, or more than one has, MySQL
  rejects the statement (unknown column, ambiguous column) whatever the rows are, and
  \<open>pool.query\<close> throws.
\<close>

definition unqualified :: "string list list \<Rightarrow> string \<Rightarrow> bool" where
  "unqualified tables col = (length (filter (\<lambda>t. col \<in> set t) tables) = 1)"

subsection \<open>getBookMakerBalance\<close>

text \<open>The data of the 200 response: the name, the balance and its breakdown.\<close>

record balanceReport =
  br_bookMakerName :: string
  br_balance :: jsnum
  br_initialBalance :: jsnum
  br_totalDeposits :: jsnum
  br_totalWithdrawals :: jsnum
  br_totalResults :: jsnum
  br_totalLiability :: jsnum

text \<open>The three CASE expressions that the SUMs of the balance statements add up.\<close>

definition depositOf :: "transaction \<Rightarrow> rat" where
  "depositOf t = (if tr_type t = ''deposit'' then tr_amount t else 0)"

definition withdrawalOf :: "transaction \<Rightarrow> rat" where
  "withdrawalOf t = (if tr_type t = ''withdrawal'' then tr_amount t else 0)"

definition pendingLiabilityOf :: "bet \<Rightarrow> rat" where
  "pendingLiabilityOf b = (if bet_status b = ''pending'' then bet_liability b else 0)"

text \<open>
  The two statements of lines 494-511, each over one table and without GROUP BY: dbGet
  returns their single row.
\<close>

record transactionTotals =
  tt_totalDeposits :: jsval
  tt_totalWithdrawals :: jsval

record betTotals =
  bt_totalResults :: jsval
  bt_totalLiability :: jsval

definition selectTransactionTotals :: "jsTexts \<Rightarrow> db \<Rightarrow> jsnum \<Rightarrow> jserror + transactionTotals" where
  "selectTransactionTotals tx d idParam =
     (if connected d \<and> unqualified [transactionsColumns] ''type''
         \<and> unqualified [transactionsColumns] ''amount''
         \<and> unqualified [transactionsColumns] ''idBookMaker''
      then (let ts = filter (\<lambda>t. Fin (of_int (tr_idBookMaker t)) = idParam) (transactions d)
            in Inr \<lparr>tt_totalDeposits = sumDecimal tx (map depositOf ts),
                    tt_totalWithdrawals = sumDecimal tx (map withdrawalOf ts)\<rparr>)
      else Inl DbError)"

definition selectBetTotals :: "jsTexts \<Rightarrow> db \<Rightarrow> jsnum \<Rightarrow> jserror + betTotals" where
  "selectBetTotals tx d idParam =
     (if connected d \<and> unqualified [betsColumns] ''result''
         \<and> unqualified [betsColumns] ''status'' \<and> unqualified [betsColumns] ''liability''
         \<and> unqualified [betsColumns] ''idBookMaker''
      then (let bs = filter (\<lambda>b. Fin (of_int (bet_idBookMaker b)) = idParam) (bets d)
            in Inr \<lparr>bt_totalResults = sumDecimal tx (map bet_result bs),
                    bt_totalLiability = sumDecimal tx (map pendingLiabilityOf bs)\<rparr>)
      else Inl DbError)"

text \<open>
  getBookMakerBalance (lines 470-540).  \<open>idParam\<close> is the id of the path read as a
  number.  \<open>bookMaker.initialBalance\<close> is the NUMERIC column of the row found, a text.
  The properties of the response object are evaluated in the order they are written.
\<close>

definition getBookMakerBalance :: "jsTexts \<Rightarrow> db \<Rightarrow> jsnum \<Rightarrow> balanceReport response" where
  "getBookMakerBalance tx d idParam =
     (if \<not> isInteger idParam then Rejected 400
      else case selectBookMakerById d idParam of
        Inl e \<Rightarrow> ServerError e
      | Inr None \<Rightarrow> Rejected 404
      | Inr (Some bookMaker) \<Rightarrow>
         (case selectTransactionTotals tx d idParam of
            Inl e \<Rightarrow> ServerError e
          | Inr transactionsResult \<Rightarrow>
             (case selectBetTotals tx d idParam of
                Inl e \<Rightarrow> ServerError e
              | Inr betsResult \<Rightarrow>
                 (let totalDeposits = orZeroVal (tt_totalDeposits transactionsResult);
                      totalWithdrawals = orZeroVal (tt_totalWithdrawals transactionsResult);
                      totalResults = orZeroVal (bt_totalResults betsResult);
                      totalLiability = orZeroVal (bt_totalLiability betsResult);
                      initialBalance = TextV (decimalText tx (bm_initialBalance bookMaker));
                      balance = minusVal tx (plusVal tx (minusVal tx
                                  (plusVal tx initialBalance totalDeposits) totalWithdrawals)
                                  totalResults) totalLiability
                  in case valToFixed2 balance of
                       Inl e \<Rightarrow> ServerError e
                     | Inr b \<Rightarrow>
                   (case valToFixed2 initialBalance of
                       Inl e \<Rightarrow> ServerError e
                     | Inr i \<Rightarrow>
                   (case valToFixed2 totalDeposits of
                       Inl e \<Rightarrow> ServerError e
                     | Inr dp \<Rightarrow>
                   (case valToFixed2 totalWithdrawals of
                       Inl e \<Rightarrow> ServerError e
                     | Inr w \<Rightarrow>
                   (case valToFixed2 totalResults of
                       Inl e \<Rightarrow> ServerError e
                     | Inr r \<Rightarrow>
                   (case valToFixed2 totalLiability of
                       Inl e \<Rightarrow> ServerError e
                     | Inr l \<Rightarrow>
                        Success 200
                          \<lparr>br_bookMakerName = bm_name bookMaker, br_balance = b,
                           br_initialBalance = i, br_totalDeposits = dp,
                           br_totalWithdrawals = w, br_totalResults = r,
                           br_totalLiability = l\<rparr>)))))))))"

subsection \<open>getBalanceByPeriod (utils/helpers.js)\<close>

text \<open>
  Dates are ISO texts YYYY-MM-DD, whose order is the lexicographic one; BETWEEN is
  inclusive at both ends.
\<close>

fun strLe :: "string \<Rightarrow> string \<Rightarrow> bool" where
  "strLe [] ys = True"
| "strLe (x # xs) [] = False"
| "strLe (x # xs) (y # ys) =
     ((of_char x :: nat) < of_char y \<or> (x = y \<and> strLe xs ys))"

definition inPeriod :: "string \<Rightarrow> string \<Rightarrow> string \<Rightarrow> bool" where
  "inPeriod startDate endDate date = (strLe startDate date \<and> strLe date endDate)"

text \<open>
  The rows of the two statements: one row for every bookmaker with a transaction (a bet)
  in the window, with the name and two SUMs.  A SUM over the rows of a group is a
  DECIMAL, delivered as a text.  The rows are listed in the order of the bookMakers
  table (the statements have no ORDER BY).
\<close>

record periodTransactionRow =
  ptr_bookMakerName :: string
  ptr_totalDeposits :: string
  ptr_totalWithdrawals :: string

record periodBetRow =
  pbr_bookMakerName :: string
  pbr_totalResults :: string
  pbr_totalLiability :: string

definition periodTransactions :: "db \<Rightarrow> string \<Rightarrow> string \<Rightarrow> bookMaker \<Rightarrow> transaction list" where
  "periodTransactions d startDate endDate bm =
     filter (\<lambda>t. tr_idBookMaker t = bm_id bm \<and> inPeriod startDate endDate (tr_date t))
       (transactions d)"

definition periodBets :: "db \<Rightarrow> string \<Rightarrow> string \<Rightarrow> bookMaker \<Rightarrow> bet list" where
  "periodBets d startDate endDate bm =
     filter (\<lambda>b. bet_idBookMaker b = bm_id bm \<and> inPeriod startDate endDate (bet_betDate b))
       (bets d)"

text \<open>
  The statement of lines 586-595 joins transactions with bookMakers and names \<open>type\<close>
  and \<open>amount\<close> without a table; the statement of lines 598-607 joins bets with
  bookMakers and names \<open>result\<close>, \<open>status\<close> and \<open>liability\<close> without a table.
\<close>

definition selectPeriodTransactions ::
  "jsTexts \<Rightarrow> db \<Rightarrow> string \<Rightarrow> string \<Rightarrow> jserror + periodTransactionRow list" where
  "selectPeriodTransactions tx d startDate endDate =
     (if connected d \<and> unqualified [transactionsColumns, bookMakersColumns] ''type''
         \<and> unqualified [transactionsColumns, bookMakersColumns] ''amount''
      then Inr (map (\<lambda>bm.
                 \<lparr>ptr_bookMakerName = bm_name bm,
                  ptr_totalDeposits = decimalText tx
                    (sum_list (map depositOf (periodTransactions d startDate endDate bm))),
                  ptr_totalWithdrawals = decimalText tx
                    (sum_list (map withdrawalOf (periodTransactions d startDate endDate bm)))\<rparr>)
               (filter (\<lambda>bm. periodTransactions d startDate endDate bm \<noteq> []) (bookMakers d)))
      else Inl DbError)"

definition selectPeriodBets ::
  "jsTexts \<Rightarrow> db \<Rightarrow> string \<Rightarrow> string \<Rightarrow> jserror + periodBetRow list" where
  "selectPeriodBets tx d startDate endDate =
     (if connected d \<and> unqualified [betsColumns, bookMakersColumns] ''result''
         \<and> unqualified [betsColumns, bookMakersColumns] ''status''
         \<and> unqualified [betsColumns, bookMakersColumns] ''liability''
      then Inr (map (\<lambda>bm.
                 \<lparr>pbr_bookMakerName = bm_name bm,
                  pbr_totalResults = decimalText tx
                    (sum_list (map bet_result (periodBets d startDate endDate bm))),
                  pbr_totalLiability = decimalText tx
                    (sum_list (map pendingLiabilityOf (periodBets d startDate endDate bm)))\<rparr>)
               (filter (\<lambda>bm. periodBets d startDate endDate bm \<noteq> []) (bookMakers d)))
      else Inl DbError)"

text \<open>
  The object \<open>balanceByBookMaker\<close> starts as \<open>{}\<close>: it has own properties, kept in the
  order of their creation, and inherits from Object.prototype, taken as the engine
  creates it when the handler starts.  Its keys are bookmaker names, and a name may be
  the name of a property of Object.prototype:

  \<^item> reading a name that the object does not own gives the inherited property; the
    properties of Object.prototype are functions, which are truthy;

  \<^item> assigning to \<open>__proto__\<close> makes the assigned entry the prototype of the object and
    creates no property, and reading \<open>__proto__\<close> gives the prototype;

  \<^item> writing \<open>results\<close> and \<open>liability\<close> through a name that is inherited writes to the
    object inherited: to the entry that became the prototype, to Object.prototype
    itself (\<open>bo_shared\<close> keeps what was written there, since later reads inherit it), or
    to a function, where it changes nothing that the handler reads; when the inherited
    value is a number the write throws a TypeError, the module being an ES module and
    so in strict mode.
\<close>

record periodEntry =
  pe_deposits :: jsnum
  pe_withdrawals :: jsnum
  pe_results :: jsnum
  pe_liability :: jsnum

record periodBalance = periodEntry +
  pe_balance :: jsnum

record balanceObject =
  bo_own :: "(string \<times> periodEntry) list"
  bo_proto :: "periodEntry option"
  bo_shared :: "(string \<times> jsnum) list"

definition emptyObject :: balanceObject where
  "emptyObject = \<lparr>bo_own = [], bo_proto = None, bo_shared = []\<rparr>"

definition objectPrototypeNames :: "string list" where
  "objectPrototypeNames = [''constructor'', ''__defineGetter__'', ''__defineSetter__'',
     ''hasOwnProperty'', ''__lookupGetter__'', ''__lookupSetter__'', ''isPrototypeOf'',
     ''propertyIsEnumerable'', ''toString'', ''valueOf'', ''toLocaleString'']"

datatype property = OwnEntry periodEntry | Prototype | InheritedNumber jsnum
  | InheritedFunction | Missing

definition entryField :: "periodEntry \<Rightarrow> string \<Rightarrow> jsnum option" where
  "entryField e name =
     (if name = ''deposits'' then Some (pe_deposits e)
      else if name = ''withdrawals'' then Some (pe_withdrawals e)
      else if name = ''results'' then Some (pe_results e)
      else if name = ''liability'' then Some (pe_liability e)
      else None)"

definition getProperty :: "balanceObject \<Rightarrow> string \<Rightarrow> property" where
  "getProperty obj name =
     (case map_of (bo_own obj) name of
        Some e \<Rightarrow> OwnEntry e
      | None \<Rightarrow>
         if name = ''__proto__'' then Prototype
         else case (case bo_proto obj of Some p \<Rightarrow> entryField p name | None \<Rightarrow> None) of
           Some x \<Rightarrow> InheritedNumber x
         | None \<Rightarrow>
            (case map_of (bo_shared obj) name of
               Some x \<Rightarrow> InheritedNumber x
             | None \<Rightarrow> if name \<in> set objectPrototypeNames then InheritedFunction
                        else Missing))"

fun truthyProperty :: "property \<Rightarrow> bool" where
  "truthyProperty (OwnEntry e) = True"
| "truthyProperty Prototype = True"
| "truthyProperty (InheritedNumber x) = truthyNumber x"
| "truthyProperty InheritedFunction = True"
| "truthyProperty Missing = False"

text \<open>\<open>balanceByBookMaker[name] = entry\<close>.\<close>

definition assignProperty :: "balanceObject \<Rightarrow> string \<Rightarrow> periodEntry \<Rightarrow> balanceObject" where
  "assignProperty obj name e =
     (if name = ''__proto__'' then obj\<lparr>bo_proto := Some e\<rparr>
      else obj\<lparr>bo_own := AList.update name e (bo_own obj)\<rparr>)"

text \<open>\<open>balanceByBookMaker[name].results = r\<close> followed by
  \<open>balanceByBookMaker[name].liability = l\<close>.\<close>

definition putSettled ::
  "balanceObject \<Rightarrow> string \<Rightarrow> jsnum \<Rightarrow> jsnum \<Rightarrow> jserror + balanceObject" where
  "putSettled obj name r l =
     (case getProperty obj name of
        OwnEntry e \<Rightarrow>
          Inr (obj\<lparr>bo_own := AList.update name (e\<lparr>pe_results := r, pe_liability := l\<rparr>)
                                (bo_own obj)\<rparr>)
      | Prototype \<Rightarrow>
          (case bo_proto obj of
             Some p \<Rightarrow> Inr (obj\<lparr>bo_proto := Some (p\<lparr>pe_results := r, pe_liability := l\<rparr>)\<rparr>)
           | None \<Rightarrow> Inr (obj\<lparr>bo_shared := AList.update ''liability'' l
                                 (AList.update ''results'' r (bo_shared obj))\<rparr>))
      | InheritedNumber x \<Rightarrow> Inl TypeError
      | InheritedFunction \<Rightarrow> Inr obj
      | Missing \<Rightarrow> Inl TypeError)"

text \<open>\<open>forEach\<close> with a callback that may throw: the first throw ends the loop.\<close>

fun forEach :: "('s \<Rightarrow> 'a \<Rightarrow> jserror + 's) \<Rightarrow> 'a list \<Rightarrow> 's \<Rightarrow> jserror + 's" where
  "forEach f [] s = Inr s"
| "forEach f (x # xs) s = (case f s x of Inl e \<Rightarrow> Inl e | Inr s' \<Rightarrow> forEach f xs s')"

text \<open>
  The callback of lines 617-624.  The entry is evaluated property by property, then
  assigned.
\<close>

definition transactionCallback ::
  "balanceObject \<Rightarrow> periodTransactionRow \<Rightarrow> jserror + balanceObject" where
  "transactionCallback obj t =
     (case valToFixed2 (TextV (ptr_totalDeposits t)) of
        Inl e \<Rightarrow> Inl e
      | Inr deposits \<Rightarrow>
         (case valToFixed2 (TextV (ptr_totalWithdrawals t)) of
            Inl e \<Rightarrow> Inl e
          | Inr withdrawals \<Rightarrow>
              Inr (assignProperty obj (ptr_bookMakerName t)
                     \<lparr>pe_deposits = deposits, pe_withdrawals = withdrawals,
                      pe_results = Fin 0, pe_liability = Fin 0\<rparr>)))"

text \<open>
  The callback of lines 626-635.  The entry it creates for a name that reads as falsy has
  the properties deposits and withdrawals only; results and liability are written by the
  two assignments that follow, before anything reads them.
\<close>

definition betCallback :: "balanceObject \<Rightarrow> periodBetRow \<Rightarrow> jserror + balanceObject" where
  "betCallback obj b =
     (let obj' = (if truthyProperty (getProperty obj (pbr_bookMakerName b)) then obj
                  else assignProperty obj (pbr_bookMakerName b)
                         \<lparr>pe_deposits = Fin 0, pe_withdrawals = Fin 0,
                          pe_results = Fin 0, pe_liability = Fin 0\<rparr>)
      in case valToFixed2 (TextV (pbr_totalResults b)) of
           Inl e \<Rightarrow> Inl e
         | Inr results \<Rightarrow>
            (case valToFixed2 (TextV (pbr_totalLiability b)) of
               Inl e \<Rightarrow> Inl e
             | Inr liability \<Rightarrow> putSettled obj' (pbr_bookMakerName b) results liability))"

text \<open>
  \<open>Object.values\<close> and the JSON of the object list the own properties: first the keys
  that are array indices (the decimal text of an integer below \<open>2^32 - 1\<close>, without a
  leading zero), by value, then the other keys in the order of their creation.
\<close>

definition indexValue :: "string \<Rightarrow> nat" where
  "indexValue s = foldl (\<lambda>n c. 10 * n + (of_char c - 48)) 0 s"

definition isIndexKey :: "string \<Rightarrow> bool" where
  "isIndexKey s =
     (s \<noteq> [] \<and> list_all (\<lambda>c. c \<in> set ''0123456789'') s
      \<and> (if hd s = CHR ''0'' then s = ''0'' else True) \<and> indexValue s < 2 ^ 32 - 1)"

definition ownEntries :: "balanceObject \<Rightarrow> (string \<times> periodEntry) list" where
  "ownEntries obj =
     sort_key (\<lambda>(k, e). indexValue k) (filter (\<lambda>(k, e). isIndexKey k) (bo_own obj))
     @ filter (\<lambda>(k, e). \<not> isIndexKey k) (bo_own obj)"

text \<open>The loop of lines 638-642 over \<open>Object.values\<close>.\<close>

definition entryBalance :: "periodEntry \<Rightarrow> jsnum" where
  "entryBalance e =
     jsub (jadd (jsub (pe_deposits e) (pe_withdrawals e)) (pe_results e)) (pe_liability e)"

definition withBalance :: "periodEntry \<Rightarrow> periodBalance" where
  "withBalance e = periodEntry.extend e \<lparr>pe_balance = entryBalance e\<rparr>"

record periodReport =
  pr_period :: "string \<times> string"
  pr_totalBalance :: jsnum
  pr_byBookMaker :: "(string \<times> periodBalance) list"

text \<open>
  getBalanceByPeriod (lines 581-657).  \<open>Promise.all\<close> sends both statements and throws
  when one of them is rejected; the catch block answers 500.
\<close>

definition getBalanceByPeriod ::
  "jsTexts \<Rightarrow> db \<Rightarrow> string \<Rightarrow> string \<Rightarrow> periodReport response" where
  "getBalanceByPeriod tx d startDate endDate =
     (case selectPeriodTransactions tx d startDate endDate of
        Inl e \<Rightarrow> ServerError e
      | Inr transactionRows \<Rightarrow>
         (case selectPeriodBets tx d startDate endDate of
            Inl e \<Rightarrow> ServerError e
          | Inr betRows \<Rightarrow>
             (case forEach transactionCallback transactionRows emptyObject of
                Inl e \<Rightarrow> ServerError e
              | Inr obj \<Rightarrow>
                 (case forEach betCallback betRows obj of
                    Inl e \<Rightarrow> ServerError e
                  | Inr balanceByBookMaker \<Rightarrow>
                     (let entries = ownEntries balanceByBookMaker;
                          totalBalance = foldl (\<lambda>total e. jadd total (entryBalance e)) (Fin 0)
                                           (map snd entries)
                      in Success 200
                           \<lparr>pr_period = (startDate, endDate),
                            pr_totalBalance = numberToFixed2 totalBalance,
                            pr_byBookMaker = map (\<lambda>(name, e). (name, withBalance e)) entries\<rparr>)))))"

subsection \<open>A small store\<close>

text \<open>One exchange bookmaker charging 5 percent, with one pending back bet of 100 at
  odds 2.5, and a request body with no field supplied.\<close>

definition exampleBookMaker :: bookMaker where
  "exampleBookMaker = \<lparr>bm_id = 1, bm_name = ''Betfair'', bm_type = ''exchange'',
     bm_comission = 5, bm_initialBalance = 100, bm_info = Null\<rparr>"

definition exampleBet :: bet where
  "exampleBet = \<lparr>bet_id = 1, bet_betDate = ''2024-03-01'', bet_idBookMaker = 1,
     bet_bank = ''real'', bet_betType = ''backBet'', bet_eventDate = ''2024-03-02'',
     bet_event = ''Final'', bet_bet = ''Home win'', bet_stake = 100, bet_odds = 5/2,
     bet_status = ''pending'', bet_liability = 100, bet_result = 0, bet_info = Null\<rparr>"

definition exampleDb :: db where
  "exampleDb = \<lparr>connected = True, bookMakers = [exampleBookMaker], bets = [exampleBet],
     transactions = [], freebets = []\<rparr>"

definition emptyBody :: betBody where
  "emptyBody = \<lparr>b_idBookMaker = Undefined, b_bank = Undefined, b_betType = Undefined,
     b_betDate = Undefined, b_eventDate = Undefined, b_event = Undefined, b_bet = Undefined,
     b_stake = Undefined, b_odds = Undefined, b_status = Undefined, b_info = Undefined\<rparr>"

definition wonBackBetBody :: betBody where
  "wonBackBetBody = \<lparr>b_idBookMaker = Val (Fin 1), b_bank = Val ''real'',
     b_betType = Val ''backBet'', b_betDate = Val ''2024-03-05'',
     b_eventDate = Val ''2024-03-06'', b_event = Val ''Derby'', b_bet = Val ''Away win'',
     b_stake = Val (Fin 100), b_odds = Val (Fin (5/2)), b_status = Val ''won'',
     b_info = Undefined\<rparr>"

text \<open>The same store after a freebet of bookmaker 1 was set to the amount 0
  (updateFreebet accepts any amount), with no settled free bet.\<close>

definition zeroFreebetDb :: db where
  "zeroFreebetDb = exampleDb\<lparr>freebets :=
     [\<lparr>fb_id = 1, fb_idBookMaker = 1, fb_amount = Some 0, fb_status = ''received''\<rparr>]\<rparr>"

text \<open>The same store with a deposit of 50 on 10 March 2024.\<close>

definition depositDb :: db where
  "depositDb = exampleDb\<lparr>transactions :=
     [\<lparr>tr_id = 1, tr_date = ''2024-03-10'', tr_idBookMaker = 1, tr_type = ''deposit'',
       tr_amount = 50\<rparr>]\<rparr>"

section \<open>Facts about rounding to a double\<close>

lemma pow2_int_bounds:
  fixes a :: int
  assumes "0 < a"
  shows "(2::rat) powi (bitlen a - 1) \<le> of_int a \<and> (of_int a :: rat) < 2 powi (bitlen a)"
proof -
  have l1: "1 \<le> bitlen a"
    using assms bitlen_eq_zero_iff[of a] bitlen_nonneg[of a] by linarith
  note bb = bitlen_bounds[OF assms]
  have e1: "(2::rat) powi (bitlen a - 1) = of_int (2 ^ nat (bitlen a - 1))"
    using l1 by (simp add: power_int_nonneg_exp)
  have e2: "(2::rat) powi (bitlen a) = of_int (2 ^ nat (bitlen a))"
    using l1 by (simp add: power_int_nonneg_exp)
  have "(of_int (2 ^ nat (bitlen a - 1)) :: rat) \<le> of_int a"
    using bb by (intro iffD2[OF of_int_le_iff]) simp
  moreover have "(of_int a :: rat) < of_int (2 ^ nat (bitlen a))"
    using bb by (intro iffD2[OF of_int_less_iff]) simp
  ultimately show ?thesis by (simp only: e1 e2)
qed

lemma binexp_bounds:
  assumes "q \<noteq> 0"
  shows "2 powi (binexp q) \<le> \<bar>q\<bar> \<and> \<bar>q\<bar> < 2 powi (binexp q + 1)"
proof -
  obtain a b where ab: "quotient_of \<bar>q\<bar> = (a, b)" by (cases "quotient_of \<bar>q\<bar>")
  have bpos: "0 < b" using ab by (rule quotient_of_denom_pos)
  have qab: "\<bar>q\<bar> = of_int a / of_int b" using ab by (rule quotient_of_div)
  have bposr: "0 < (of_int b :: rat)" using bpos by simp
  have apos: "0 < a"
  proof -
    have "0 < \<bar>q\<bar>" using assms by simp
    then have "0 < (of_int a :: rat) / of_int b" using qab by simp
    then have "0 < (of_int a :: rat)" using bposr by (simp add: zero_less_divide_iff)
    then show ?thesis by simp
  qed
  define la where "la = bitlen a"
  define lb where "lb = bitlen b"
  have ra: "(2::rat) powi (la - 1) \<le> of_int a" "(of_int a :: rat) < 2 powi la"
    using pow2_int_bounds[OF apos] by (simp_all add: la_def)
  have rb: "(2::rat) powi (lb - 1) \<le> of_int b" "(of_int b :: rat) < 2 powi lb"
    using pow2_int_bounds[OF bpos] by (simp_all add: lb_def)
  have up: "\<bar>q\<bar> < 2 powi (la - lb + 1)"
  proof -
    have "(2::rat) powi (la - lb + 1) * 2 powi (lb - 1) = 2 powi la"
      using power_int_add[of "2::rat" "la - lb + 1" "lb - 1"] by simp
    then have "of_int a < (2::rat) powi (la - lb + 1) * 2 powi (lb - 1)"
      using ra(2) by simp
    also have "\<dots> \<le> 2 powi (la - lb + 1) * of_int b"
      using rb(1) by (intro mult_left_mono) simp_all
    finally show ?thesis using bposr by (simp add: qab pos_divide_less_eq)
  qed
  have lo: "2 powi (la - lb - 1) < \<bar>q\<bar>"
  proof -
    have "(2::rat) powi (la - lb - 1) * of_int b < 2 powi (la - lb - 1) * 2 powi lb"
      using rb(2) by (intro mult_strict_left_mono) simp_all
    also have "\<dots> = 2 powi (la - 1)"
      using power_int_add[of "2::rat" "la - lb - 1" "lb"] by simp
    also have "\<dots> \<le> of_int a" using ra(1) .
    finally show ?thesis using bposr by (simp add: qab pos_less_divide_eq)
  qed
  show ?thesis
  proof (cases "2 powi (la - lb) \<le> \<bar>q\<bar>")
    case True
    then have "binexp q = la - lb" by (simp add: binexp_def ab la_def lb_def)
    then show ?thesis using True up by simp
  next
    case False
    then have "binexp q = la - lb - 1" by (simp add: binexp_def ab la_def lb_def)
    then show ?thesis using False lo by simp
  qed
qed

lemma pow2_le_abs_nonzero:
  assumes "2 powi e \<le> \<bar>q :: rat\<bar>"
  shows "q \<noteq> 0"
proof
  have p: "0 < (2::rat) powi e" by simp
  assume "q = 0"
  then have "2 powi e \<le> (0::rat)" using assms by simp
  then show False using p by linarith
qed

lemma binexp_eqI:
  assumes "2 powi e \<le> \<bar>q\<bar>" and "\<bar>q\<bar> < 2 powi (e + 1)"
  shows "binexp q = e"
proof -
  note b = binexp_bounds[OF pow2_le_abs_nonzero[OF assms(1)]]
  have "\<not> binexp q < e"
  proof
    assume "binexp q < e"
    then have "(2::rat) powi (binexp q + 1) \<le> 2 powi e"
      by (intro power_int_increasing) simp_all
    then show False using b assms(1) by linarith
  qed
  moreover have "\<not> e < binexp q"
  proof
    assume "e < binexp q"
    then have "(2::rat) powi (e + 1) \<le> 2 powi (binexp q)"
      by (intro power_int_increasing) simp_all
    then show False using b assms(2) by linarith
  qed
  ultimately show ?thesis by simp
qed

lemma roundHalfEven_of_int: "roundHalfEven (of_int n) = n"
  by (simp add: roundHalfEven_def)

lemma roundHalfEven_eqI:
  assumes "of_int n - 1/2 < k" and "k < of_int n + 1/2"
  shows "roundHalfEven k = n"
proof -
  have "\<lfloor>k\<rfloor> = n \<or> \<lfloor>k\<rfloor> = n - 1" using assms by linarith
  then show ?thesis
  proof
    assume f: "\<lfloor>k\<rfloor> = n"
    then have "k - of_int \<lfloor>k\<rfloor> < 1/2" using assms by simp
    then show ?thesis using f by (simp add: roundHalfEven_def)
  next
    assume f: "\<lfloor>k\<rfloor> = n - 1"
    then have "1/2 < k - of_int \<lfloor>k\<rfloor>" using assms by simp
    then show ?thesis using f by (simp add: roundHalfEven_def Let_def)
  qed
qed

text \<open>How a concrete rational rounds: the exponent \<open>e\<close> and the significand \<open>n\<close> are given.\<close>

lemma fl_eqI:
  assumes "2 powi e \<le> \<bar>q\<bar>" and "\<bar>q\<bar> < 2 powi (e + 1)" and "- 1022 \<le> e"
    and "of_int n - 1/2 < q / 2 powi (e - 52)" and "q / 2 powi (e - 52) < of_int n + 1/2"
    and "\<bar>of_int n * 2 powi (e - 52)\<bar> < (2::rat) powi 1024"
  shows "fl q = Fin (of_int n * 2 powi (e - 52))"
proof -
  have q0: "q \<noteq> 0" using assms(1) by (rule pow2_le_abs_nonzero)
  have b: "binexp q = e" using assms(1,2) by (rule binexp_eqI)
  have m: "max e (- 1022) = e" using assms(3) by simp
  have r: "roundHalfEven (q / 2 powi (e - 52)) = n" using assms(4,5) by (rule roundHalfEven_eqI)
  have o1: "\<not> 2 powi 1024 \<le> of_int n * (2::rat) powi (e - 52)" using assms(6) by linarith
  have o2: "\<not> of_int n * (2::rat) powi (e - 52) \<le> - (2 powi 1024)" using assms(6) by linarith
  show ?thesis unfolding fl_def Let_def b m r using q0 o1 o2 by simp
qed

text \<open>A value with at most 53 significant bits and an exponent in range is a double.\<close>

lemma fl_exact:
  assumes m: "\<bar>m\<bar> < 2 ^ 53" and k1: "- 1074 \<le> k" and k2: "k \<le> 971"
  shows "fl (of_int m * 2 powi k) = Fin (of_int m * 2 powi k)"
proof (cases "m = 0")
  case True
  then show ?thesis by (simp add: fl_def)
next
  case False
  define q :: rat where "q = of_int m * 2 powi k"
  have q0: "q \<noteq> 0" using False by (simp add: q_def)
  have absq: "\<bar>q\<bar> = of_int \<bar>m\<bar> * 2 powi k" by (simp add: q_def abs_mult)
  have mr: "(of_int \<bar>m\<bar> :: rat) < 2 powi 53"
  proof -
    have "(of_int \<bar>m\<bar> :: rat) < of_int (2 ^ 53)" using m by (intro iffD2[OF of_int_less_iff])
    then show ?thesis by simp
  qed
  have lt: "\<bar>q\<bar> < 2 powi (53 + k)"
  proof -
    have "of_int \<bar>m\<bar> * (2::rat) powi k < 2 powi 53 * 2 powi k"
      using mr by (intro mult_strict_right_mono) simp_all
    also have "\<dots> = 2 powi (53 + k)" using power_int_add[of "2::rat" 53 k] by simp
    finally show ?thesis by (simp add: absq)
  qed
  define e where "e = binexp q"
  have eb: "2 powi e \<le> \<bar>q\<bar>" using binexp_bounds[OF q0] by (simp add: e_def)
  have ek: "e < 53 + k"
  proof (rule ccontr)
    assume "\<not> e < 53 + k"
    then have "(2::rat) powi (53 + k) \<le> 2 powi e" by (intro power_int_increasing) simp_all
    then show False using eb lt by linarith
  qed
  define j where "j = max e (- 1022) - 52"
  have jk: "j \<le> k" using ek k1 by (simp add: j_def)
  define d where "d = nat (k - j)"
  have kd: "k = j + int d" using jk by (simp add: d_def)
  have pk: "(2::rat) powi k = 2 powi j * 2 ^ d"
    using power_int_add[of "2::rat" j "int d"] by (simp add: kd)
  have pj: "(2::rat) powi j \<noteq> 0" by simp
  have qu: "q / 2 powi j = of_int (m * 2 ^ d)" using pj by (simp add: q_def pk)
  have r: "roundHalfEven (q / 2 powi j) = m * 2 ^ d" unfolding qu by (rule roundHalfEven_of_int)
  have bk: "of_int (m * 2 ^ d) * 2 powi j = q" by (simp add: q_def pk)
  have big: "\<bar>q\<bar> < 2 powi 1024"
  proof -
    have "(2::rat) powi (53 + k) \<le> 2 powi 1024" using k2 by (intro power_int_increasing) simp_all
    then show ?thesis using lt by linarith
  qed
  have o1: "\<not> 2 powi 1024 \<le> q" using big by linarith
  have o2: "\<not> q \<le> - (2 powi 1024)" using big by linarith
  have "fl q = Fin q"
    unfolding fl_def Let_def e_def[symmetric] j_def[symmetric] r bk using q0 o1 o2 by simp
  then show ?thesis by (simp add: q_def)
qed

lemma floor_rat_numeral_divide:
  "\<lfloor>(numeral a :: rat) / numeral b\<rfloor> = numeral a div numeral b"
  using floor_divide_of_int_eq[of "numeral a" "numeral b", where 'a = rat] by simp

lemma floor_rat_one_divide:
  "\<lfloor>(1 :: rat) / numeral b\<rfloor> = 1 div numeral b"
  using floor_divide_of_int_eq[of 1 "numeral b", where 'a = rat] by simp

lemma fl_of_int: "\<bar>m\<bar> < 2 ^ 53 \<Longrightarrow> fl (of_int m) = Fin (of_int m)"
  using fl_exact[of m 0] by simp

lemma fl_150: "fl 150 = Fin 150"
  using fl_of_int[of 150] by simp

lemma fl_3_halves: "fl (3/2) = Fin (3/2)"
  using fl_exact[of 3 "-1"] by simp

lemma fl_zero: "fl 0 = Fin 0"
  by (simp add: fl_def)

lemma fl_numeral: "numeral n < (2::int) ^ 53 \<Longrightarrow> fl (numeral n) = Fin (numeral n)"
  using fl_of_int[of "numeral n"] by simp

lemma fl_numeral_half:
  "numeral n < (2::int) ^ 53 \<Longrightarrow> fl (numeral n / 2) = Fin (numeral n / 2)"
  using fl_exact[of "numeral n" "-1"] by simp

text \<open>The doubles nearest to 0.05, 0.03, 0.06, 0.01 and 0.02, and two products.\<close>

lemma fl_1_20: "fl (1/20) = Fin (3602879701896397/72057594037927936)"
  using fl_eqI[of "-5" "1/20" 7205759403792794] by (simp add: power_int_minus)

lemma fl_3_100: "fl (3/100) = Fin (1080863910568919/36028797018963968)"
  using fl_eqI[of "-6" "3/100" 8646911284551352] by (simp add: power_int_minus)

lemma fl_3_50: "fl (3/50) = Fin (1080863910568919/18014398509481984)"
  using fl_eqI[of "-5" "3/50" 8646911284551352] by (simp add: power_int_minus)

lemma fl_1_100: "fl (1/100) = Fin (5764607523034235/576460752303423488)"
  using fl_eqI[of "-7" "1/100" 5764607523034235] by (simp add: power_int_minus)

lemma fl_1_50: "fl (1/50) = Fin (5764607523034235/288230376151711744)"
  using fl_eqI[of "-6" "1/50" 5764607523034235] by (simp add: power_int_minus)

lemma fl_150_times_5_percent: "fl (270215977642229775/36028797018963968) = Fin (15/2)"
  using fl_eqI[of 2 "270215977642229775/36028797018963968" 8444249301319680]
  by (simp add: power_int_minus)

lemma fl_half_of_3_percent:
  "fl (1080863910568919/72057594037927936) = Fin (1080863910568919/72057594037927936)"
  using fl_exact[of 1080863910568919 "-56"] by (simp add: power_int_minus)

lemma fl_one: "fl 1 = Fin 1"
  using fl_of_int[of 1] by simp

lemmas fl_evals = fl_zero fl_one fl_numeral fl_numeral_half fl_1_20 fl_3_100 fl_3_50 fl_1_100 fl_1_50
  fl_150_times_5_percent fl_half_of_3_percent

lemmas toFixed_evals = toFixed2Digits_def roundHalfUp_def floor_rat_numeral_divide
  floor_rat_one_divide

text \<open>\<open>toFixed2Digits\<close> picks a nearest integer of hundredths, and on a tie the one away
  from zero.\<close>

lemma roundHalfUp_bounds:
  "of_int (roundHalfUp k) - 1/2 \<le> k \<and> k < of_int (roundHalfUp k) + 1/2"
proof -
  have "of_int \<lfloor>k + 1/2\<rfloor> \<le> k + 1/2" by (rule of_int_floor_le)
  moreover have "k + 1/2 < of_int \<lfloor>k + 1/2\<rfloor> + 1" by (rule floor_correct[THEN conjunct2, simplified])
  ultimately show ?thesis unfolding roundHalfUp_def by linarith
qed

lemma toFixed2Digits_nearest:
  "\<bar>of_int (toFixed2Digits q) - q * 100\<bar> \<le> 1/2"
proof (cases "q < 0")
  case True
  define m where "m = roundHalfUp (- q * 100)"
  have b1: "of_int m - 1/2 \<le> - q * 100" and b2: "- q * 100 < of_int m + 1/2"
    using roundHalfUp_bounds[of "- q * 100"] by (simp_all add: m_def)
  have d: "toFixed2Digits q = - m" using True by (simp add: toFixed2Digits_def m_def)
  have "of_int (- m) - q * 100 \<le> 1/2" and "- (of_int (- m) - q * 100) \<le> 1/2"
    using b1 b2 by simp_all
  then show ?thesis unfolding d by (simp only: abs_le_iff)
next
  case False
  define m where "m = roundHalfUp (q * 100)"
  have b1: "of_int m - 1/2 \<le> q * 100" and b2: "q * 100 < of_int m + 1/2"
    using roundHalfUp_bounds[of "q * 100"] by (simp_all add: m_def)
  have d: "toFixed2Digits q = m" using False by (simp add: toFixed2Digits_def m_def)
  have "of_int m - q * 100 \<le> 1/2" and "- (of_int m - q * 100) \<le> 1/2"
    using b1 b2 by simp_all
  then show ?thesis unfolding d by (simp only: abs_le_iff)
qed

lemma toFixed2Digits_tie:
  assumes "\<bar>of_int (toFixed2Digits q) - q * 100\<bar> = 1/2"
  shows "\<bar>q * 100\<bar> < \<bar>of_int (toFixed2Digits q)\<bar>"
proof (cases "q < 0")
  case True
  define m where "m = roundHalfUp (- q * 100)"
  have b2: "- q * 100 < of_int m + 1/2"
    using roundHalfUp_bounds[of "- q * 100"] by (simp_all add: m_def)
  have d: "toFixed2Digits q = - m" using True by (simp add: toFixed2Digits_def m_def)
  have t: "\<bar>of_int (- m) - q * 100\<bar> = 1/2" using assms by (simp only: d)
  have "of_int (- m) - q * 100 = 1/2 \<or> of_int (- m) - q * 100 = - (1/2)"
    using t by (auto simp: abs_if split: if_splits)
  then have e: "of_int m = - q * 100 + 1/2" using b2 by auto
  have "0 < - q * 100" using True by simp
  then have "\<bar>q * 100\<bar> < \<bar>of_int (- m) :: rat\<bar>" using e True by simp
  then show ?thesis by (simp only: d)
next
  case False
  define m where "m = roundHalfUp (q * 100)"
  have b2: "q * 100 < of_int m + 1/2"
    using roundHalfUp_bounds[of "q * 100"] by (simp_all add: m_def)
  have d: "toFixed2Digits q = m" using False by (simp add: toFixed2Digits_def m_def)
  have t: "\<bar>of_int m - q * 100\<bar> = 1/2" using assms by (simp only: d)
  have "of_int m - q * 100 = 1/2 \<or> of_int m - q * 100 = - (1/2)"
    using t by (auto simp: abs_if split: if_splits)
  then have e: "of_int m = q * 100 + 1/2" using b2 by auto
  have "0 \<le> q * 100" using False by simp
  then have "\<bar>q * 100\<bar> < \<bar>of_int m :: rat\<bar>" using e by simp
  then show ?thesis by (simp only: d)
qed


text \<open>Two doubles with a single bit, and the double nearest to 0.13.\<close>

lemma fl_1_2: "fl (1/2) = Fin (1/2)"
  using fl_exact[of 1 "-1"] by (simp add: power_int_minus)

lemma fl_1_32: "fl (1/32) = Fin (1/32)"
  using fl_exact[of 1 "-5"] by (simp add: power_int_minus)

lemma fl_13_100: "fl (13/100) = Fin (1170935903116329/9007199254740992)"
  using fl_eqI[of "-3" "13/100" 4683743612465316] by (simp add: power_int_minus)

section \<open>The liability contract\<close>

text \<open>
  Claim C2, as amended.  For every status, betType, stake and odds, calculateLiability
  returns 0 whenever status is not 'pending', also when stake or odds are missing.  When
  status is 'pending' it returns, for betType 'layBet', stake * (odds - 1) rounded to 2
  decimals, the difference and the product being those of JavaScript numbers and a
  missing operand being read as ToNumber reads it; for 'freeBet', 0; and for every other
  betType, the stake rounded to 2 decimals when the stake is a number, while a stake
  that is \<open>undefined\<close> or \<open>null\<close> makes it throw a TypeError.  Rounding to 2 decimals is
  \<open>Number(x.toFixed(2))\<close>: for \<open>x\<close> below \<open>10^21\<close> in magnitude, the double nearest to
  \<open>n / 100\<close> for an integer \<open>n\<close> within one half of \<open>100 x\<close>.  In particular
  calculateLiability('pending','layBet',100,2.5) is 150; a lay bet of 0.0625 at odds 1.5
  has the liability 0.03 (from 0.03125), stakes of 0.0625 and 0.125 give the
  liabilities 0.06 and 0.13, and a lay bet without a stake has the liability NaN
  (stake \<open>undefined\<close>) or 0 (stake \<open>null\<close>).
\<close>

theorem C2_calculateLiability_contract:
  "calculateLiability status betType stake odds =
     (if status \<noteq> Val ''pending'' then Inr (Fin 0)
      else if betType = Val ''layBet'' then
        Inr (numberToFixed2 (jmul (toNumber stake) (jsub (toNumber odds) (Fin 1))))
      else if betType = Val ''freeBet'' then Inr (Fin 0)
      else case stake of
             Val s \<Rightarrow> Inr (numberToFixed2 s)
           | Undefined \<Rightarrow> Inl TypeError
           | Null \<Rightarrow> Inl TypeError)
   \<and> numberToFixed2 (Fin q) =
       (if 10 ^ 21 \<le> \<bar>q\<bar> then Fin q else fl (of_int (toFixed2Digits q) / 100))
   \<and> \<bar>of_int (toFixed2Digits q) - q * 100\<bar> \<le> 1/2
   \<and> calculateLiability (Val ''pending'') (Val ''layBet'') (Val (Fin 100)) (Val (Fin (5/2)))
       = Inr (Fin 150)
   \<and> calculateLiability (Val ''pending'') (Val ''layBet'') (Val (Fin (1/16))) (Val (Fin (3/2)))
       = Inr (Fin (1080863910568919/36028797018963968))
   \<and> calculateLiability (Val ''pending'') (Val ''backBet'') (Val (Fin (1/16))) (Val (Fin 2))
       = Inr (Fin (1080863910568919/18014398509481984))
   \<and> calculateLiability (Val ''pending'') (Val ''mugBet'') (Val (Fin (1/8))) (Val (Fin 2))
       = Inr (Fin (1170935903116329/9007199254740992))
   \<and> calculateLiability (Val ''pending'') (Val ''layBet'') Undefined (Val (Fin 2)) = Inr NaN
   \<and> calculateLiability (Val ''pending'') (Val ''layBet'') Null (Val (Fin 2)) = Inr (Fin 0)"
proof (intro conjI)
  show "calculateLiability status betType stake odds =
     (if status \<noteq> Val ''pending'' then Inr (Fin 0)
      else if betType = Val ''layBet'' then
        Inr (numberToFixed2 (jmul (toNumber stake) (jsub (toNumber odds) (Fin 1))))
      else if betType = Val ''freeBet'' then Inr (Fin 0)
      else case stake of
             Val s \<Rightarrow> Inr (numberToFixed2 s)
           | Undefined \<Rightarrow> Inl TypeError
           | Null \<Rightarrow> Inl TypeError)"
    by (cases stake) (simp_all add: calculateLiability_def)
  show "numberToFixed2 (Fin q) =
       (if 10 ^ 21 \<le> \<bar>q\<bar> then Fin q else fl (of_int (toFixed2Digits q) / 100))"
    by simp
  show "\<bar>of_int (toFixed2Digits q) - q * 100\<bar> \<le> 1/2"
    by (rule toFixed2Digits_nearest)
  show "calculateLiability (Val ''pending'') (Val ''layBet'') (Val (Fin 100)) (Val (Fin (5/2)))
       = Inr (Fin 150)"
    by (simp add: calculateLiability_def jsub_def fl_3_halves fl_150 toFixed_evals)
  show "calculateLiability (Val ''pending'') (Val ''layBet'') (Val (Fin (1/16))) (Val (Fin (3/2)))
       = Inr (Fin (1080863910568919/36028797018963968))"
    by (simp add: calculateLiability_def jsub_def fl_1_2 fl_1_32 fl_3_100 toFixed_evals)
  show "calculateLiability (Val ''pending'') (Val ''backBet'') (Val (Fin (1/16))) (Val (Fin 2))
       = Inr (Fin (1080863910568919/18014398509481984))"
    by (simp add: calculateLiability_def fl_3_50 toFixed_evals)
  show "calculateLiability (Val ''pending'') (Val ''mugBet'') (Val (Fin (1/8))) (Val (Fin 2))
       = Inr (Fin (1170935903116329/9007199254740992))"
    by (simp add: calculateLiability_def fl_13_100 toFixed_evals)
  show "calculateLiability (Val ''pending'') (Val ''layBet'') Undefined (Val (Fin 2)) = Inr NaN"
    by (simp add: calculateLiability_def jsub_def fl_one)
  show "calculateLiability (Val ''pending'') (Val ''layBet'') Null (Val (Fin 2)) = Inr (Fin 0)"
    by (simp add: calculateLiability_def jsub_def fl_one fl_zero toFixed_evals)
qed

text \<open>
  Claim C2 as stated fails: with status 'pending', betType 'backBet' and no stake (what
  updateBet passes for a request body without a stake) calculateLiability throws and
  returns nothing.
\<close>

theorem C2_missing_stake_counterexample:
  "calculateLiability (Val ''pending'') (Val ''backBet'') Undefined Undefined = Inl TypeError"
  by (simp add: calculateLiability_def)

section \<open>The result contract\<close>

text \<open>
  Claim C1, as amended.  calculateResult returns 0 when status is 'pending'.  When status
  is 'won' it returns the profit minus the commission on that profit, rounded to 2
  decimals, where the profit is the stake for betType 'layBet' and stake * (odds - 1)
  for every other betType.  When status is 'lost' it returns minus the liability rounded
  to 2 decimals for 'layBet', 0 for 'freeBet', and minus the stake rounded to 2 decimals
  for every other betType: the loss is the rounded stake, not the stake itself.  The four
  worked values of the specification hold: 142.50, -150, 100 and 0.
\<close>

theorem C1_calculateResult_contract:
  "calculateResult (Val ''pending'') betType stake odds liability commission = Inr (Fin 0)
   \<and> calculateResult (Val ''won'') (Val bt) (Val s) (Val od) (Val li) (Val c) =
       Inr (let profit = (if bt = ''layBet'' then s else jmul s (jsub od (Fin 1)))
            in numberToFixed2 (jsub profit (calculateCommission (Val profit) (Val c))))
   \<and> calculateResult (Val ''lost'') (Val bt) (Val s) (Val od) (Val li) (Val c) =
       Inr (if bt = ''layBet'' then jneg (numberToFixed2 li)
            else if bt = ''freeBet'' then Fin 0
            else jneg (numberToFixed2 s))
   \<and> calculateResult (Val ''won'') (Val ''backBet'') (Val (Fin 100)) (Val (Fin (5/2)))
         (Val (Fin 0)) (Val (Fin 5)) = Inr (Fin (285/2))
   \<and> calculateResult (Val ''lost'') (Val ''layBet'') (Val (Fin 100)) (Val (Fin (5/2)))
         (Val (Fin 150)) (Val (Fin 0)) = Inr (Fin (- 150))
   \<and> calculateResult (Val ''won'') (Val ''freeBet'') (Val (Fin 50)) (Val (Fin 3))
         (Val (Fin 0)) (Val (Fin 0)) = Inr (Fin 100)
   \<and> calculateResult (Val ''lost'') (Val ''freeBet'') (Val (Fin 50)) (Val (Fin 3))
         (Val (Fin 0)) (Val (Fin 0)) = Inr (Fin 0)"
proof (intro conjI)
  show "calculateResult (Val ''pending'') betType stake odds liability commission = Inr (Fin 0)"
    by (simp add: calculateResult_def)
  show "calculateResult (Val ''won'') (Val bt) (Val s) (Val od) (Val li) (Val c) =
       Inr (let profit = (if bt = ''layBet'' then s else jmul s (jsub od (Fin 1)))
            in numberToFixed2 (jsub profit (calculateCommission (Val profit) (Val c))))"
    by (simp add: calculateResult_def Let_def)
  show "calculateResult (Val ''lost'') (Val bt) (Val s) (Val od) (Val li) (Val c) =
       Inr (if bt = ''layBet'' then jneg (numberToFixed2 li)
            else if bt = ''freeBet'' then Fin 0
            else jneg (numberToFixed2 s))"
    by (simp add: calculateResult_def Let_def)
  show "calculateResult (Val ''won'') (Val ''backBet'') (Val (Fin 100)) (Val (Fin (5/2)))
         (Val (Fin 0)) (Val (Fin 5)) = Inr (Fin (285/2))"
    by (simp add: calculateResult_def calculateCommission_def jsub_def Let_def fl_evals
        toFixed_evals)
  show "calculateResult (Val ''lost'') (Val ''layBet'') (Val (Fin 100)) (Val (Fin (5/2)))
         (Val (Fin 150)) (Val (Fin 0)) = Inr (Fin (- 150))"
    by (simp add: calculateResult_def Let_def fl_evals toFixed_evals)
  show "calculateResult (Val ''won'') (Val ''freeBet'') (Val (Fin 50)) (Val (Fin 3))
         (Val (Fin 0)) (Val (Fin 0)) = Inr (Fin 100)"
    by (simp add: calculateResult_def calculateCommission_def jsub_def Let_def fl_evals
        toFixed_evals)
  show "calculateResult (Val ''lost'') (Val ''freeBet'') (Val (Fin 50)) (Val (Fin 3))
         (Val (Fin 0)) (Val (Fin 0)) = Inr (Fin 0)"
    by (simp add: calculateResult_def Let_def)
qed

text \<open>
  Claim C1 as stated fails: a lost back bet of stake 0.0625 returns -0.06 (the double
  nearest to it), not -0.0625.
\<close>

theorem C1_lost_stake_counterexample:
  "calculateResult (Val ''lost'') (Val ''backBet'') (Val (Fin (1/16))) (Val (Fin 2))
     (Val (Fin 0)) (Val (Fin 0)) = Inr (Fin (- (1080863910568919/18014398509481984)))
   \<and> calculateResult (Val ''lost'') (Val ''backBet'') (Val (Fin (1/16))) (Val (Fin 2))
     (Val (Fin 0)) (Val (Fin 0)) \<noteq> Inr (jneg (Fin (1/16)))"
  by (simp add: calculateResult_def Let_def fl_evals toFixed_evals)

section \<open>Unknown bet types\<close>

text \<open>
  Claim C8, as amended.  On a stake, odds and liability that are numbers,
  calculateLiability and calculateResult never raise, whatever the status, the betType
  and the commission argument are.  A betType outside the six known values, a missing
  one included, takes the default arm of both switches, whose formulas are the back-bet
  ones.  The liability is the stake rounded to 2 decimals while pending, and 0
  otherwise.  The result is 0 while pending; when won it is the profit
  stake * (odds - 1) minus the commission on it, the commission being
  profit * (commission / 100) rounded to 2 decimals (commission 0 when the argument is
  missing) and the difference being rounded to 2 decimals again; for any other status it
  is minus the stake rounded to 2 decimals.  The default arm does not read the
  liability argument.  Rounding to 2 decimals is \<open>Number(x.toFixed(2))\<close>, as for claim
  C2.  For the unknown type 'accumulator': a pending stake of 0.0625 has the liability
  0.06, a won stake of 100 at odds 2.5 and 5 percent has the result 142.5, and a lost
  stake of 0.0625 has the result -0.06.
\<close>

theorem C8_unknown_betType_falls_back:
  assumes "betType \<notin> Val ` set knownBetTypes"
  shows "(\<exists>l. calculateLiability status anyType (Val stake) (Val odds) = Inr l)
    \<and> (\<exists>r. calculateResult status anyType (Val stake) (Val odds) (Val liability) commission
           = Inr r)
    \<and> calculateLiability status betType (Val stake) (Val odds)
         = Inr (if status = Val ''pending'' then numberToFixed2 stake else Fin 0)
    \<and> calculateResult status betType (Val stake) (Val odds) liabilityArg commission
         = Inr (if status = Val ''pending'' then Fin 0
                else if status = Val ''won'' then
                  numberToFixed2 (jsub (jmul stake (jsub odds (Fin 1)))
                    (numberToFixed2 (jmul (jmul stake (jsub odds (Fin 1)))
                       (jdiv (case commission of Val c \<Rightarrow> c | Undefined \<Rightarrow> Fin 0
                              | Null \<Rightarrow> Fin 0) (Fin 100)))))
                else jneg (numberToFixed2 stake))
    \<and> calculateLiability status betType (Val stake) (Val odds)
         = calculateLiability status (Val ''backBet'') (Val stake) (Val odds)
    \<and> calculateResult status betType (Val stake) (Val odds) liabilityArg commission
         = calculateResult status (Val ''backBet'') (Val stake) (Val odds) liabilityArg
             commission
    \<and> numberToFixed2 (Fin q) =
         (if 10 ^ 21 \<le> \<bar>q\<bar> then Fin q else fl (of_int (toFixed2Digits q) / 100))
    \<and> \<bar>of_int (toFixed2Digits q) - q * 100\<bar> \<le> 1/2
    \<and> calculateLiability (Val ''pending'') (Val ''accumulator'') (Val (Fin (1/16)))
         (Val (Fin 2)) = Inr (Fin (1080863910568919/18014398509481984))
    \<and> calculateResult (Val ''won'') (Val ''accumulator'') (Val (Fin 100)) (Val (Fin (5/2)))
         (Val (Fin 0)) (Val (Fin 5)) = Inr (Fin (285/2))
    \<and> calculateResult (Val ''lost'') (Val ''accumulator'') (Val (Fin (1/16))) (Val (Fin 2))
         (Val (Fin 0)) Undefined = Inr (Fin (- (1080863910568919/18014398509481984)))"
proof -
  have n: "betType \<noteq> Val ''backBet''" "betType \<noteq> Val ''layBet''" "betType \<noteq> Val ''freeBet''"
    using assms by (auto simp: knownBetTypes_def)
  have 1: "\<exists>l. calculateLiability status anyType (Val stake) (Val odds) = Inr l"
    by (simp add: calculateLiability_def)
  have 2: "\<exists>r. calculateResult status anyType (Val stake) (Val odds) (Val liability) commission
           = Inr r"
    by (simp add: calculateResult_def Let_def)
  have 3: "calculateLiability status betType (Val stake) (Val odds)
         = Inr (if status = Val ''pending'' then numberToFixed2 stake else Fin 0)"
    using n by (simp add: calculateLiability_def)
  have 4: "calculateResult status betType (Val stake) (Val odds) liabilityArg commission
         = Inr (if status = Val ''pending'' then Fin 0
                else if status = Val ''won'' then
                  numberToFixed2 (jsub (jmul stake (jsub odds (Fin 1)))
                    (numberToFixed2 (jmul (jmul stake (jsub odds (Fin 1)))
                       (jdiv (case commission of Val c \<Rightarrow> c | Undefined \<Rightarrow> Fin 0
                              | Null \<Rightarrow> Fin 0) (Fin 100)))))
                else jneg (numberToFixed2 stake))"
    using n by (cases commission) (simp_all add: calculateResult_def calculateCommission_def Let_def)
  have 5: "calculateLiability status betType (Val stake) (Val odds)
         = calculateLiability status (Val ''backBet'') (Val stake) (Val odds)"
    using n by (simp add: calculateLiability_def)
  have 6: "calculateResult status betType (Val stake) (Val odds) liabilityArg commission
         = calculateResult status (Val ''backBet'') (Val stake) (Val odds) liabilityArg
             commission"
    using n by (simp add: calculateResult_def Let_def)
  have 7: "numberToFixed2 (Fin q) =
         (if 10 ^ 21 \<le> \<bar>q\<bar> then Fin q else fl (of_int (toFixed2Digits q) / 100))"
    by simp
  have 8: "\<bar>of_int (toFixed2Digits q) - q * 100\<bar> \<le> 1/2"
    by (rule toFixed2Digits_nearest)
  have 9: "calculateLiability (Val ''pending'') (Val ''accumulator'') (Val (Fin (1/16)))
         (Val (Fin 2)) = Inr (Fin (1080863910568919/18014398509481984))"
    by (simp add: calculateLiability_def fl_3_50 toFixed_evals)
  have 10: "calculateResult (Val ''won'') (Val ''accumulator'') (Val (Fin 100)) (Val (Fin (5/2)))
         (Val (Fin 0)) (Val (Fin 5)) = Inr (Fin (285/2))"
    by (simp add: calculateResult_def calculateCommission_def jsub_def Let_def fl_evals
        toFixed_evals)
  have 11: "calculateResult (Val ''lost'') (Val ''accumulator'') (Val (Fin (1/16))) (Val (Fin 2))
         (Val (Fin 0)) Undefined = Inr (Fin (- (1080863910568919/18014398509481984)))"
    by (simp add: calculateResult_def Let_def fl_evals toFixed_evals)
  show ?thesis
    by (intro conjI) (rule 1, rule 2, rule 3, rule 4, rule 5, rule 6, rule 7, rule 8, rule 9,
        rule 10, rule 11)
qed

theorem C8_unknown_betType_witness:
  "Val ''accumulator'' \<notin> Val ` set knownBetTypes
   \<and> calculateLiability (Val ''pending'') (Val ''accumulator'') (Val (Fin 100)) (Val (Fin (5/2)))
       = Inr (Fin 100)
   \<and> calculateResult (Val ''lost'') (Val ''accumulator'') (Val (Fin 100)) (Val (Fin (5/2)))
       (Val (Fin 0)) Undefined = Inr (Fin (- 100))
   \<and> calculateLiability (Val ''won'') Undefined (Val (Fin 100)) (Val (Fin (5/2))) = Inr (Fin 0)"
proof -
  have h: "Val ''accumulator'' \<notin> Val ` set knownBetTypes" by (simp add: knownBetTypes_def)
  have u: "(Undefined :: string jsopt) \<notin> Val ` set knownBetTypes" by auto
  show ?thesis
    using h
      C8_unknown_betType_falls_back[OF h, where status = "Val ''pending''"
        and stake = "Fin 100" and odds = "Fin (5/2)"]
      C8_unknown_betType_falls_back[OF h, where status = "Val ''lost''"
        and stake = "Fin 100" and odds = "Fin (5/2)" and liabilityArg = "Val (Fin 0)"
        and commission = Undefined]
      C8_unknown_betType_falls_back[OF u, where status = "Val ''won''"
        and stake = "Fin 100" and odds = "Fin (5/2)"]
    by (simp add: fl_evals toFixed_evals)
qed

text \<open>
  Claim C8 as stated fails.  Without a stake (what updateBet passes for a request body
  without one) both functions throw a TypeError in the default arm.  And a lost stake of
  0.0625 has the result -0.06, not minus the stake.
\<close>

theorem C8_missing_stake_counterexample:
  "calculateLiability (Val ''pending'') (Val ''accumulator'') Undefined Undefined
     = Inl TypeError
   \<and> calculateResult (Val ''lost'') (Val ''accumulator'') Undefined Undefined (Val (Fin 0))
       Undefined = Inl TypeError
   \<and> calculateResult (Val ''lost'') (Val ''accumulator'') (Val (Fin (1/16))) (Val (Fin 2))
       (Val (Fin 0)) Undefined \<noteq> Inr (jneg (Fin (1/16)))"
  by (simp add: calculateLiability_def calculateResult_def Let_def fl_evals toFixed_evals)

section \<open>Rounding of the monetary outputs\<close>

text \<open>
  Claim C6, as amended.  calculateCommission(profit, commissionPercent) is the double
  product profit * (commissionPercent / 100), quotient and product each rounded to the
  nearest double, passed through \<open>Number(x.toFixed(2))\<close>.  Below \<open>10^21\<close> in magnitude
  that is the double nearest to \<open>n / 100\<close>, where \<open>n\<close> is an integer nearest to 100 times
  the exact binary value of \<open>x\<close>, and on an exact tie the one away from zero.  Every
  output of calculateLiability and calculateResult on numeric arguments is 0 or such a
  rounded value or its negation, computed when the function is called.  The value is
  half-up rounding of the double that was computed, not of the decimal product
  profit * commissionPercent / 100.
\<close>

theorem C6_rounding_at_computation:
  assumes "\<bar>q\<bar> < 10 ^ 21"
  shows "calculateCommission (Val profit) (Val pct)
           = numberToFixed2 (jmul profit (jdiv pct (Fin 100)))
    \<and> numberToFixed2 (Fin q) = fl (of_int (toFixed2Digits q) / 100)
    \<and> \<bar>of_int (toFixed2Digits q) - q * 100\<bar> \<le> 1/2
    \<and> (\<bar>of_int (toFixed2Digits q) - q * 100\<bar> = 1/2
         \<longrightarrow> \<bar>q * 100\<bar> < \<bar>of_int (toFixed2Digits q)\<bar>)
    \<and> (\<exists>l. calculateLiability status betType (Val stake) (Val odds) = Inr l
           \<and> (l = Fin 0 \<or> (\<exists>x. l = numberToFixed2 x)))
    \<and> (\<exists>r. calculateResult status betType (Val stake) (Val odds) (Val liability) (Val pct)
             = Inr r
           \<and> (r = Fin 0 \<or> (\<exists>x. r = numberToFixed2 x \<or> r = jneg (numberToFixed2 x))))"
proof -
  have 1: "calculateCommission (Val profit) (Val pct)
           = numberToFixed2 (jmul profit (jdiv pct (Fin 100)))"
    by (simp add: calculateCommission_def)
  have 2: "numberToFixed2 (Fin q) = fl (of_int (toFixed2Digits q) / 100)"
    using assms by simp
  have 5: "\<exists>l. calculateLiability status betType (Val stake) (Val odds) = Inr l
           \<and> (l = Fin 0 \<or> (\<exists>x. l = numberToFixed2 x))"
    by (auto simp: calculateLiability_def)
  have 6: "\<exists>r. calculateResult status betType (Val stake) (Val odds) (Val liability) (Val pct)
             = Inr r
           \<and> (r = Fin 0 \<or> (\<exists>x. r = numberToFixed2 x \<or> r = jneg (numberToFixed2 x)))"
    by (auto simp: calculateResult_def Let_def)
  show ?thesis
    using 1 2 5 6 toFixed2Digits_nearest[of q] toFixed2Digits_tie[of q] by blast
qed

theorem C6_rounding_witness:
  "\<bar>1/8 :: rat\<bar> < 10 ^ 21
   \<and> numberToFixed2 (Fin (1/8)) = fl (13/100)
   \<and> toFixed2Digits (1/8) = 13
   \<and> \<bar>(1/8 :: rat) * 100\<bar> < \<bar>of_int (toFixed2Digits (1/8))\<bar>"
proof -
  have h: "\<bar>1/8 :: rat\<bar> < 10 ^ 21" by simp
  have d: "toFixed2Digits (1/8) = 13" by (simp add: toFixed_evals)
  show ?thesis
    using h d C6_rounding_at_computation[OF h, of "Fin 0" "Fin 0" Undefined Undefined "Fin 0"
        "Fin 0" "Fin 0"]
    by simp
qed

text \<open>
  Claim C6 as stated fails: a profit of 0.5 at 3 percent is the half-cent 0.015, which
  rounds half-up to 0.02, but 3 / 100 is a double just below 0.03, its half is just below
  0.015, and calculateCommission returns 0.01.
\<close>

theorem C6_half_cent_counterexample:
  "calculateCommission (Val (Fin (1/2))) (Val (Fin 3))
     = Fin (5764607523034235/576460752303423488)
   \<and> commissionSpec (1/2) 3 = Fin (5764607523034235/288230376151711744)
   \<and> calculateCommission (Val (Fin (1/2))) (Val (Fin 3)) \<noteq> commissionSpec (1/2) 3"
  by (simp add: calculateCommission_def commissionSpec_def halfUp2_def fl_evals toFixed_evals)

section \<open>updateBet never writes\<close>

lemma checkBookMaker_not_success: "checkBookMaker d v \<noteq> Some (Success c x)"
  by (simp add: checkBookMaker_def split: sum.splits option.splits)

lemma updateBet_no_write:
  "fst (updateBet d idParam body) = d \<and> (\<forall>c x. snd (updateBet d idParam body) \<noteq> Success c x)"
  using checkBookMaker_not_success[of d "b_idBookMaker body"]
  by (auto simp: updateBet_def readVar_def updateBetScope_def Let_def
      split: sum.splits option.splits)

lemma updateBet_outcome:
  assumes "isInteger idParam" and "selectBetById d idParam = Inr (Some existingBet)"
    and "checkBookMaker d (b_idBookMaker body) = None"
  shows "snd (updateBet d idParam body) =
      (if (truthyStr (b_bank body) \<and> \<not> includesStr [''real'', ''freebet''] (b_bank body))
          \<or> (truthyStr (b_betType body) \<and> \<not> includesStr knownBetTypes (b_betType body))
          \<or> (truthyStr (b_status body)
               \<and> \<not> includesStr [''pending'', ''won'', ''lost''] (b_status body))
       then Rejected 400
       else case calculateLiability (b_status body) (b_betType body) (b_stake body)
                   (b_odds body) of
              Inl e \<Rightarrow> ServerError e
            | Inr l \<Rightarrow> ServerError ReferenceError)"
  using assms
  by (auto simp: updateBet_def readVar_def updateBetScope_def Let_def split: sum.splits)

lemma calculateLiability_error:
  "calculateLiability status betType stake odds = Inl e \<Longrightarrow> e = TypeError"
  by (cases stake) (auto simp: calculateLiability_def split: if_splits)

text \<open>
  Claim C9.  When updateBet is called on an existing bet with a body that omits
  idBookMaker, the store is left as it was and the response is never a success: it is
  400 when bank, betType or status is supplied with an invalid value, and otherwise the
  500 of the catch block, reached before any write, with the TypeError of
  calculateLiability when that call throws and else with the ReferenceError of reading
  \<open>bookMaker\<close> outside the block that declares it.
\<close>

theorem C9_updateBet_without_idBookMaker:
  assumes "isInteger idParam" and "selectBetById d idParam = Inr (Some existingBet)"
    and "b_idBookMaker body = Undefined"
  shows "fst (updateBet d idParam body) = d
    \<and> (\<forall>c x. snd (updateBet d idParam body) \<noteq> Success c x)
    \<and> snd (updateBet d idParam body) \<in>
          {Rejected 400, ServerError TypeError, ServerError ReferenceError}
    \<and> snd (updateBet d idParam body) =
      (if (truthyStr (b_bank body) \<and> \<not> includesStr [''real'', ''freebet''] (b_bank body))
          \<or> (truthyStr (b_betType body) \<and> \<not> includesStr knownBetTypes (b_betType body))
          \<or> (truthyStr (b_status body)
               \<and> \<not> includesStr [''pending'', ''won'', ''lost''] (b_status body))
       then Rejected 400
       else case calculateLiability (b_status body) (b_betType body) (b_stake body)
                   (b_odds body) of
              Inl e \<Rightarrow> ServerError e
            | Inr l \<Rightarrow> ServerError ReferenceError)"
proof -
  have c: "checkBookMaker d (b_idBookMaker body) = None"
    using assms(3) by (simp add: checkBookMaker_def)
  note o = updateBet_outcome[OF assms(1,2) c]
  have m: "snd (updateBet d idParam body) \<in>
          {Rejected 400, ServerError TypeError, ServerError ReferenceError}"
    unfolding o by (auto split: sum.splits dest: calculateLiability_error)
  show ?thesis using updateBet_no_write[of d idParam body] m o by blast
qed

lemma exampleBet_found: "selectBetById exampleDb (Fin 1) = Inr (Some exampleBet)"
  by (simp add: selectBetById_def exampleDb_def exampleBet_def)

lemma isInteger_1: "isInteger (Fin 1)"
  by (simp add: isInteger_def)

theorem C9_updateBet_without_idBookMaker_witness:
  "isInteger (Fin 1)
   \<and> selectBetById exampleDb (Fin 1) = Inr (Some exampleBet)
   \<and> b_idBookMaker (emptyBody\<lparr>b_status := Val ''won''\<rparr>) = Undefined
   \<and> updateBet exampleDb (Fin 1) (emptyBody\<lparr>b_status := Val ''won''\<rparr>)
       = (exampleDb, ServerError ReferenceError)"
proof -
  have h: "b_idBookMaker (emptyBody\<lparr>b_status := Val ''won''\<rparr>) = Undefined"
    by (simp add: emptyBody_def)
  note t = C9_updateBet_without_idBookMaker[OF isInteger_1 exampleBet_found h]
  have 1: "fst (updateBet exampleDb (Fin 1) (emptyBody\<lparr>b_status := Val ''won''\<rparr>)) = exampleDb"
    using t by blast
  have "snd (updateBet exampleDb (Fin 1) (emptyBody\<lparr>b_status := Val ''won''\<rparr>)) =
      (if (truthyStr (b_bank (emptyBody\<lparr>b_status := Val ''won''\<rparr>))
            \<and> \<not> includesStr [''real'', ''freebet''] (b_bank (emptyBody\<lparr>b_status := Val ''won''\<rparr>)))
          \<or> (truthyStr (b_betType (emptyBody\<lparr>b_status := Val ''won''\<rparr>))
            \<and> \<not> includesStr knownBetTypes (b_betType (emptyBody\<lparr>b_status := Val ''won''\<rparr>)))
          \<or> (truthyStr (b_status (emptyBody\<lparr>b_status := Val ''won''\<rparr>))
               \<and> \<not> includesStr [''pending'', ''won'', ''lost'']
                     (b_status (emptyBody\<lparr>b_status := Val ''won''\<rparr>)))
       then Rejected 400
       else case calculateLiability (b_status (emptyBody\<lparr>b_status := Val ''won''\<rparr>))
                   (b_betType (emptyBody\<lparr>b_status := Val ''won''\<rparr>))
                   (b_stake (emptyBody\<lparr>b_status := Val ''won''\<rparr>))
                   (b_odds (emptyBody\<lparr>b_status := Val ''won''\<rparr>)) of
              Inl e \<Rightarrow> ServerError e
            | Inr l \<Rightarrow> ServerError ReferenceError)"
    using t by blast
  then have 2: "snd (updateBet exampleDb (Fin 1) (emptyBody\<lparr>b_status := Val ''won''\<rparr>))
      = ServerError ReferenceError"
    by (simp add: emptyBody_def includesStr_def calculateLiability_def)
  have "updateBet exampleDb (Fin 1) (emptyBody\<lparr>b_status := Val ''won''\<rparr>)
       = (exampleDb, ServerError ReferenceError)"
    using 1 2 by (simp add: prod_eq_iff)
  then show ?thesis using isInteger_1 exampleBet_found h by simp
qed

section \<open>The update of a bet against its announced recomputation\<close>

text \<open>
  Claim C7 at a failing input.  The stored bet is the pending back bet of 100 at odds
  2.5 of the 5 percent bookmaker, and the request sets idBookMaker to 1 and the status to
  'won'.  From the bet's effective attributes the liability is 0 and the result 142.50.
  The handler instead ends in its catch block: nothing is persisted, and the bet keeps
  liability 100 and result 0.
\<close>

theorem C7_updateBet_persists_nothing:
  "updateBet exampleDb (Fin 1) (emptyBody\<lparr>b_idBookMaker := Val (Fin 1), b_status := Val ''won''\<rparr>)
     = (exampleDb, ServerError ReferenceError)
   \<and> effectiveSettlement (emptyBody\<lparr>b_idBookMaker := Val (Fin 1), b_status := Val ''won''\<rparr>)
       exampleBet (bm_comission exampleBookMaker) = (Inr (Fin 0), Inr (Fin (285/2)))
   \<and> bets exampleDb = [exampleBet]
   \<and> bet_liability exampleBet = 100 \<and> bet_result exampleBet = 0"
proof (intro conjI)
  have c: "checkBookMaker exampleDb
      (b_idBookMaker (emptyBody\<lparr>b_idBookMaker := Val (Fin 1), b_status := Val ''won''\<rparr>)) = None"
    by (simp add: checkBookMaker_def selectBookMakerById_def exampleDb_def exampleBookMaker_def)
  have "snd (updateBet exampleDb (Fin 1)
          (emptyBody\<lparr>b_idBookMaker := Val (Fin 1), b_status := Val ''won''\<rparr>))
        = ServerError ReferenceError"
    unfolding updateBet_outcome[OF isInteger_1 exampleBet_found c]
    by (simp add: emptyBody_def includesStr_def calculateLiability_def)
  then show "updateBet exampleDb (Fin 1)
      (emptyBody\<lparr>b_idBookMaker := Val (Fin 1), b_status := Val ''won''\<rparr>)
     = (exampleDb, ServerError ReferenceError)"
    using updateBet_no_write[of exampleDb "Fin 1"
        "emptyBody\<lparr>b_idBookMaker := Val (Fin 1), b_status := Val ''won''\<rparr>"]
    by (simp add: prod_eq_iff)
  show "effectiveSettlement (emptyBody\<lparr>b_idBookMaker := Val (Fin 1), b_status := Val ''won''\<rparr>)
       exampleBet (bm_comission exampleBookMaker) = (Inr (Fin 0), Inr (Fin (285/2)))"
    by (simp add: effectiveSettlement_def emptyBody_def exampleBet_def exampleBookMaker_def
        calculateLiability_def calculateResult_def calculateCommission_def jsub_def Let_def
        fl_evals toFixed_evals)
  show "bets exampleDb = [exampleBet]" by (simp add: exampleDb_def)
  show "bet_liability exampleBet = 100" by (simp add: exampleBet_def)
  show "bet_result exampleBet = 0" by (simp add: exampleBet_def)
qed

section \<open>The commission createBet applies\<close>

lemma numberColumn_commission: "numberColumn bm ''commission'' = Undefined"
  by (simp add: numberColumn_def)

lemma calculateResult_default_commission:
  "calculateResult status betType stake odds liability Undefined
     = calculateResult status betType stake odds liability (Val (Fin 0))"
  by (simp add: calculateResult_def)

lemma insertBet_appends:
  assumes "insertBet d body liability result = Inr (d', n)"
  shows "\<exists>row. bets d' = bets d @ [row] \<and> Fin (bet_liability row) = liability
           \<and> Fin (bet_result row) = result"
proof -
  obtain l where l: "liability = Fin l"
    using assms by (cases liability) (auto simp: insertBet_def split: sum.splits if_splits)
  obtain r where r: "result = Fin r"
    using assms by (cases result) (auto simp: insertBet_def split: sum.splits if_splits)
  show ?thesis
    using assms unfolding l r by (auto simp: insertBet_def split: sum.splits if_splits)
qed

text \<open>
  Claim C10.  For every successful createBet call the status is 201 and the result,
  both in the response and in the row appended to the bets table, is
  calculateResult(status, betType, stake, odds, liability, 0), where liability is
  calculateLiability(status, betType, stake, odds): the handler passes
  \<open>bookMaker.commission\<close>, the row object has no property of that name (the column is
  \<open>comission\<close>), so the argument is \<open>undefined\<close> and the default 0 applies, whatever
  percentage the bookmaker has.
\<close>

theorem C10_createBet_uses_zero_commission:
  assumes "createBet d body = (d', Success c created)"
  shows "c = 201
    \<and> calculateLiability (b_status body) (b_betType body) (b_stake body) (b_odds body)
        = Inr (cb_liability created)
    \<and> calculateResult (b_status body) (b_betType body) (b_stake body) (b_odds body)
        (Val (cb_liability created)) (Val (Fin 0)) = Inr (cb_result created)
    \<and> (\<exists>row. bets d' = bets d @ [row] \<and> Fin (bet_liability row) = cb_liability created
           \<and> Fin (bet_result row) = cb_result created)"
  using assms
  by (auto simp: createBet_def readVar_def numberColumn_commission
      calculateResult_default_commission
      split: if_splits sum.splits option.splits prod.splits dest: insertBet_appends)

text \<open>A won back bet of 100 at odds 2.5 with the 5 percent bookmaker is stored with the
  result 150, not 142.50.\<close>

theorem C10_createBet_witness:
  "createBet exampleDb wonBackBetBody =
     (exampleDb\<lparr>bets := [exampleBet,
        \<lparr>bet_id = 2, bet_betDate = ''2024-03-05'', bet_idBookMaker = 1, bet_bank = ''real'',
         bet_betType = ''backBet'', bet_eventDate = ''2024-03-06'', bet_event = ''Derby'',
         bet_bet = ''Away win'', bet_stake = 100, bet_odds = 5/2, bet_status = ''won'',
         bet_liability = 0, bet_result = 150, bet_info = Undefined\<rparr>]\<rparr>,
      Success 201 \<lparr>cb_id = 2, cb_body = wonBackBetBody, cb_liability = Fin 0,
        cb_result = Fin 150\<rparr>)
   \<and> bm_comission exampleBookMaker = 5
   \<and> calculateResult (Val ''won'') (Val ''backBet'') (Val (Fin 100)) (Val (Fin (5/2)))
        (Val (Fin 0)) (Val (Fin 0)) = Inr (Fin 150)"
proof -
  have l: "calculateLiability (Val ''won'') (Val ''backBet'') (Val (Fin 100)) (Val (Fin (5/2)))
      = Inr (Fin 0)"
    by (simp add: calculateLiability_def)
  have r: "calculateResult (Val ''won'') (Val ''backBet'') (Val (Fin 100)) (Val (Fin (5/2)))
      (Val (Fin 0)) Undefined = Inr (Fin 150)"
    by (simp add: calculateResult_def calculateCommission_def jsub_def Let_def fl_evals
        toFixed_evals)
  have i: "insertBet exampleDb wonBackBetBody (Fin 0) (Fin 150) =
     Inr (exampleDb\<lparr>bets := [exampleBet,
        \<lparr>bet_id = 2, bet_betDate = ''2024-03-05'', bet_idBookMaker = 1, bet_bank = ''real'',
         bet_betType = ''backBet'', bet_eventDate = ''2024-03-06'', bet_event = ''Derby'',
         bet_bet = ''Away win'', bet_stake = 100, bet_odds = 5/2, bet_status = ''won'',
         bet_liability = 0, bet_result = 150, bet_info = Undefined\<rparr>]\<rparr>, 2)"
    by (simp add: insertBet_def nextBetId_def exampleDb_def exampleBet_def wonBackBetBody_def)
  have s: "selectBookMakerById exampleDb (Fin 1) = Inr (Some exampleBookMaker)"
    by (simp add: selectBookMakerById_def exampleDb_def exampleBookMaker_def)
  have f: "b_idBookMaker wonBackBetBody = Val (Fin 1)" "b_bank wonBackBetBody = Val ''real''"
    "b_betType wonBackBetBody = Val ''backBet''" "b_betDate wonBackBetBody = Val ''2024-03-05''"
    "b_eventDate wonBackBetBody = Val ''2024-03-06''" "b_event wonBackBetBody = Val ''Derby''"
    "b_bet wonBackBetBody = Val ''Away win''" "b_stake wonBackBetBody = Val (Fin 100)"
    "b_odds wonBackBetBody = Val (Fin (5/2))" "b_status wonBackBetBody = Val ''won''"
    by (simp_all add: wonBackBetBody_def)
  have e: "createBet exampleDb wonBackBetBody =
     (exampleDb\<lparr>bets := [exampleBet,
        \<lparr>bet_id = 2, bet_betDate = ''2024-03-05'', bet_idBookMaker = 1, bet_bank = ''real'',
         bet_betType = ''backBet'', bet_eventDate = ''2024-03-06'', bet_event = ''Derby'',
         bet_bet = ''Away win'', bet_stake = 100, bet_odds = 5/2, bet_status = ''won'',
         bet_liability = 0, bet_result = 150, bet_info = Undefined\<rparr>]\<rparr>,
      Success 201 \<lparr>cb_id = 2, cb_body = wonBackBetBody, cb_liability = Fin 0,
        cb_result = Fin 150\<rparr>)"
    by (simp add: createBet_def f includesStr_def knownBetTypes_def s l r i readVar_def
        numberColumn_commission)
  note t = C10_createBet_uses_zero_commission[OF e]
  have "calculateResult (Val ''won'') (Val ''backBet'') (Val (Fin 100)) (Val (Fin (5/2)))
        (Val (Fin 0)) (Val (Fin 0)) = Inr (Fin 150)"
    using t by (simp add: f)
  then show ?thesis using e by (simp add: exampleBookMaker_def)
qed

section \<open>Ratios with a zero denominator\<close>

text \<open>The win rate of getBetStats is 0 when no bet is resolved: 0 / 0 is NaN, which
  \<open>|| 0\<close> replaces before toFixed.\<close>

lemma winRate_no_resolved_bets:
  assumes "bs_wonBets stat = Fin 0" and "bs_lostBets stat = Fin 0"
  shows "bs_winRate (enhanceStat stat) = Fin 0"
  using assms
  by (simp add: enhanceStat_def betStat.extend_def numberOrZero_def fl_zero toFixed_evals)

text \<open>The ROI on a zero total stake is 0 only when the total result is 0 too; otherwise
  the quotient is an infinity, which is truthy and stays.\<close>

lemma roi_zero_stake:
  assumes "bs_totalStaked stat = Fin 0" and "bs_totalResult stat = Fin r"
  shows "bs_roi (enhanceStat stat) = (if r = 0 then Fin 0 else if r < 0 then NInf else PInf)"
  using assms
  by (simp add: enhanceStat_def betStat.extend_def numberOrZero_def fl_zero toFixed_evals)

text \<open>The conversion rate of a bookmaker on a zero total amount is never 0: the \<open>|| 0\<close>
  stands after toFixed, whose string is always truthy.\<close>

lemma conversionRate_zero_amount:
  assumes "toNumber (fs_totalFreebetAmount s) = Fin 0" and "toNumber (fs_totalProfit s) = Fin p"
  shows "ef_conversionRate (enrichStat s) = (if p = 0 then NaN else if p < 0 then NInf else PInf)"
  using assms by (simp add: enrichStat_def)

text \<open>
  Claim C4 at a failing input.  Bookmaker 1 has one freebet, of amount 0, and no settled
  free bet.  Its conversion rate and the overall conversion rate are both NaN (0 / 0),
  not 0: in the per-bookmaker rate the \<open>|| 0\<close> is applied to the string toFixed returns,
  and the overall rate has no fallback at all.
\<close>

theorem C4_conversion_rate_zero_amount:
  "getFreebetConversionRate zeroFreebetDb =
     Success 200
       \<lparr>cr_totals = \<lparr>ft_totalFreebets = Fin 1, ft_totalAmount = Fin 0, ft_totalProfit = Fin 0,
                     ft_receivedFreebets = Fin 1, ft_rejectedFreebets = Fin 0\<rparr>,
        cr_overallConversionRate = NaN,
        cr_overallSuccessRate = Fin 100,
        cr_byBookMaker =
          [\<lparr>ef_bookMakerName = ''Betfair'', ef_totalFreebets = Fin 1,
            ef_totalFreebetAmount = Fin 0, ef_avgFreebetAmount = Fin 0,
            ef_receivedFreebets = Fin 1, ef_rejectedFreebets = Fin 0, ef_totalProfit = Fin 0,
            ef_conversionRate = NaN, ef_successRate = Fin 100\<rparr>]\<rparr>"
proof -
  have rows: "freebetStatRows zeroFreebetDb =
      [\<lparr>fs_bookMakerName = ''Betfair'', fs_totalFreebets = Fin 1,
        fs_totalFreebetAmount = Val (Fin 0), fs_avgFreebetAmount = Val (Fin 0),
        fs_receivedFreebets = Fin 1, fs_rejectedFreebets = Fin 0, fs_totalProfit = Null\<rparr>]"
    by (simp add: freebetStatRows_def freebetStatRow_def freebetsOfBookMaker_def amountsOf_def
        sumOrNull_def avgOrNull_def countWhere_def zeroFreebetDb_def exampleDb_def
        exampleBookMaker_def exampleBet_def fl_zero fl_one)
  have conn: "connected zeroFreebetDb" by (simp add: zeroFreebetDb_def exampleDb_def)
  show ?thesis
    by (simp add: getFreebetConversionRate_def rows conn enrichStat_def addTotals_def
        zeroTotals_def Let_def fl_evals toFixed_evals)
qed

section \<open>The balance of a bookmaker\<close>

text \<open>The first sum of line 519, of the initial balance and the deposits, is a text:
  \<open>+\<close> concatenates.\<close>

lemma initialBalance_plus: "plusVal tx (TextV s) v = TextV (s @ valText tx v)"
  by (simp add: plusVal_def)

lemma selectBookMakerById_connected:
  "selectBookMakerById d n = Inr r \<Longrightarrow> connected d"
  by (simp add: selectBookMakerById_def split: if_splits)

lemma selectTransactionTotals_connected:
  "connected d \<Longrightarrow> \<exists>r. selectTransactionTotals tx d n = Inr r"
  by (simp add: selectTransactionTotals_def unqualified_def transactionsColumns_def Let_def)

lemma selectBetTotals_connected:
  "connected d \<Longrightarrow> \<exists>r. selectBetTotals tx d n = Inr r"
  by (simp add: selectBetTotals_def unqualified_def betsColumns_def Let_def)

lemma getBookMakerBalance_found:
  assumes "isInteger idParam" and "selectBookMakerById d idParam = Inr (Some bookMaker)"
  shows "getBookMakerBalance tx d idParam = ServerError TypeError"
proof -
  have c: "connected d" using assms(2) by (rule selectBookMakerById_connected)
  obtain t where t: "selectTransactionTotals tx d idParam = Inr t"
    using selectTransactionTotals_connected[OF c] by blast
  obtain b where b: "selectBetTotals tx d idParam = Inr b"
    using selectBetTotals_connected[OF c] by blast
  show ?thesis
    using assms by (simp add: getBookMakerBalance_def t b Let_def minusVal_def)
qed

text \<open>
  Claim C3 at a failing input.  For a bookmaker that exists, getBookMakerBalance never
  sends a balance.  The row of the bookmaker holds the initial balance as a text, and
  the handler treats it as a number: line 519 concatenates it with the deposits, and in
  the response line 525 calls \<open>toFixed\<close> on it, which a text does not have.  The call
  throws a TypeError and the catch block answers 500.  So the handler answers 400 for an
  id that is no integer, 404 for an unknown bookmaker, 500 otherwise, and never 200; for
  bookmaker 1 of the small store it answers 500, with or without a deposit.
\<close>

theorem C3_balance_query_throws:
  "getBookMakerBalance tx d idParam =
     (if \<not> isInteger idParam then Rejected 400
      else case selectBookMakerById d idParam of
        Inl e \<Rightarrow> ServerError e
      | Inr None \<Rightarrow> Rejected 404
      | Inr (Some bookMaker) \<Rightarrow> ServerError TypeError)
   \<and> getBookMakerBalance tx d idParam \<noteq> Success code report
   \<and> getBookMakerBalance tx exampleDb (Fin 1) = ServerError TypeError
   \<and> getBookMakerBalance tx depositDb (Fin 1) = ServerError TypeError"
proof -
  have 1: "getBookMakerBalance tx d idParam =
     (if \<not> isInteger idParam then Rejected 400
      else case selectBookMakerById d idParam of
        Inl e \<Rightarrow> ServerError e
      | Inr None \<Rightarrow> Rejected 404
      | Inr (Some bookMaker) \<Rightarrow> ServerError TypeError)"
  proof (cases "isInteger idParam")
    case False
    then show ?thesis by (simp add: getBookMakerBalance_def)
  next
    case True
    show ?thesis
    proof (cases "selectBookMakerById d idParam")
      case (Inl e)
      then show ?thesis using True by (simp add: getBookMakerBalance_def)
    next
      case (Inr found)
      show ?thesis
      proof (cases found)
        case None
        then show ?thesis using True Inr by (simp add: getBookMakerBalance_def)
      next
        case (Some bookMaker)
        have "getBookMakerBalance tx d idParam = ServerError TypeError"
          using True Inr Some by (intro getBookMakerBalance_found) simp_all
        then show ?thesis using True Inr Some by simp
      qed
    qed
  qed
  have 2: "getBookMakerBalance tx d idParam \<noteq> Success code report"
    unfolding 1 by (simp split: sum.splits option.splits)
  have i: "isInteger (Fin 1)" by (simp add: isInteger_def)
  have 3: "getBookMakerBalance tx exampleDb (Fin 1) = ServerError TypeError"
    by (rule getBookMakerBalance_found[OF i, of _ exampleBookMaker])
       (simp add: selectBookMakerById_def exampleDb_def exampleBookMaker_def)
  have 4: "getBookMakerBalance tx depositDb (Fin 1) = ServerError TypeError"
    by (rule getBookMakerBalance_found[OF i, of _ exampleBookMaker])
       (simp add: selectBookMakerById_def depositDb_def exampleDb_def exampleBookMaker_def)
  show ?thesis by (intro conjI) (rule 1, rule 2, rule 3, rule 4)
qed

section \<open>The balance of a period\<close>

text \<open>
  The statement over transactions and bookMakers names \<open>type\<close> without a table, and both
  tables have a column \<open>type\<close>; the statements of lines 270 and 733 of the same file,
  over the same two tables, write \<open>t.type\<close>.
\<close>

lemma type_is_ambiguous: "\<not> unqualified [transactionsColumns, bookMakersColumns] ''type''"
  by (simp add: unqualified_def transactionsColumns_def bookMakersColumns_def)

lemma selectPeriodTransactions_rejected:
  "selectPeriodTransactions tx d startDate endDate = Inl DbError"
  using type_is_ambiguous by (simp add: selectPeriodTransactions_def)

text \<open>Had the statements returned rows, the first row would have ended either loop: its
  sums are texts, and the callbacks call \<open>toFixed\<close> on them.\<close>

lemma forEach_transactionCallback:
  "rows \<noteq> [] \<Longrightarrow> forEach transactionCallback rows obj = Inl TypeError"
  by (cases rows) (simp_all add: transactionCallback_def)

lemma forEach_betCallback:
  "rows \<noteq> [] \<Longrightarrow> forEach betCallback rows obj = Inl TypeError"
  by (cases rows) (simp_all add: betCallback_def Let_def)

text \<open>
  Claim C5 at a failing input.  getBalanceByPeriod computes no balance for any window:
  MySQL rejects its first statement, in which the column \<open>type\<close> is ambiguous, whatever
  the rows of the tables and the two dates are, \<open>Promise.all\<close> throws, and the handler
  answers 500.  So it does for March 2024 on the small store with its deposit of 50 on
  10 March, where the claim expects an entry for the bookmaker.
\<close>

theorem C5_period_balance_query_rejected:
  "getBalanceByPeriod tx d startDate endDate = ServerError DbError
   \<and> getBalanceByPeriod tx depositDb ''2024-03-01'' ''2024-03-31'' = ServerError DbError
   \<and> \<not> unqualified [transactionsColumns, bookMakersColumns] ''type''"
  using type_is_ambiguous
  by (simp add: getBalanceByPeriod_def selectPeriodTransactions_rejected)

end
